theory Spec2Isabelle
  imports Complex_Main
begin

section \<open>JavaScript values and effects\<close>

text \<open>
  The script \<^verbatim>\<open>scripts/health-check.js\<close> is embedded as it is written: its objects are
  records, its strings are byte lists, a thrown exception or a rejected promise is the
  completion \<open>Throw\<close>, \<open>process.exit\<close> is the completion \<open>Exit\<close>, and the console and
  the network are an explicit \<open>world\<close> that every operation passes on.
\<close>

text \<open>A number produced by \<^verbatim>\<open>JSON.parse\<close>: a finite value, or an infinity (\<^verbatim>\<open>1e999\<close>).\<close>

datatype js_number = Finite rat | Infinite bool

text \<open>The values \<^verbatim>\<open>JSON.parse\<close> can return. An object keeps its own properties as a list.\<close>

datatype json =
    JNull
  | JBool bool
  | JNumber js_number
  | JString string
  | JArray "json list"
  | JObject "(string \<times> json) list"

text \<open>An \<^verbatim>\<open>Error\<close> object: the optional \<^verbatim>\<open>code\<close> Node sets on system errors, and the message.\<close>

record js_error =
  code :: "string option"
  message :: string

text \<open>The object \<^verbatim>\<open>makeRequest\<close> resolves with (lines 43-47).\<close>

record response =
  status :: int
  data :: string
  headers :: "(string \<times> string) list"

text \<open>An entry of the \<^verbatim>\<open>services\<close> array (lines 7-23).\<close>

record service =
  name :: string
  url :: string
  critical :: bool

text \<open>
  The object \<^verbatim>\<open>checkService\<close> and \<^verbatim>\<open>checkDatabase\<close> return. The script writes the status
  as a string; \<^verbatim>\<open>code\<close> and \<^verbatim>\<open>error\<close> are present on some paths only.
\<close>

record verdict =
  service :: string
  status :: string
  code :: "int option"
  error :: "string option"

text \<open>
  What the HTTP client reports for one request: a complete response (its body in the
  chunks of the \<^verbatim>\<open>data\<close> events, then the \<^verbatim>\<open>end\<close> event), the \<^verbatim>\<open>timeout\<close> event of the
  request, the \<^verbatim>\<open>error\<close> event of the request, or a response whose connection closes
  after the headers and before the end. The last raises none of the three events the
  script listens to.
\<close>

datatype net_event =
    Responded int "string list" "(string \<times> string) list"
  | TimedOut
  | Failed js_error
  | Aborted

text \<open>
  What the script does not define itself is a parameter: the network (the event the
  \<open>n\<close>-th request of the run gets for its URL) and the built-ins \<^verbatim>\<open>JSON.parse\<close>,
  \<^verbatim>\<open>JSON.stringify\<close> and the string conversion of a template literal, which throws on
  an object whose \<^verbatim>\<open>toString\<close> and \<^verbatim>\<open>valueOf\<close> give no primitive.
\<close>

record runtime =
  net :: "nat \<Rightarrow> string \<Rightarrow> net_event"
  JSON_parse :: "string \<Rightarrow> js_error + json"
  JSON_stringify :: "json \<Rightarrow> string"
  ToString :: "json \<Rightarrow> js_error + string"

record world =
  stdout :: "string list"
  stderr :: "string list"
  requests :: "string list"

text \<open>
  How a piece of the script ends: with a value, with a throw, with the exit of the
  process, or never, waiting for a promise that is not settled.
\<close>

datatype 'a completion = Normal 'a | Throw js_error | Exit int | Pending

type_synonym 'a js = "world \<Rightarrow> 'a completion \<times> world"

definition js_return :: "'a \<Rightarrow> 'a js" where
  "js_return x w = (Normal x, w)"

definition js_throw :: "js_error \<Rightarrow> 'a js" where
  "js_throw e w = (Throw e, w)"

definition js_bind :: "'a js \<Rightarrow> ('a \<Rightarrow> 'b js) \<Rightarrow> 'b js" where
  "js_bind m f w =
     (case m w of
        (Normal x, w') \<Rightarrow> f x w'
      | (Throw e, w') \<Rightarrow> (Throw e, w')
      | (Exit n, w') \<Rightarrow> (Exit n, w')
      | (Pending, w') \<Rightarrow> (Pending, w'))"

definition js_then :: "unit js \<Rightarrow> 'a js \<Rightarrow> 'a js" where
  "js_then m k = js_bind m (\<lambda>_. k)"

text \<open>
  \<^verbatim>\<open>try { m } catch (e) { h e }\<close>: only a throw reaches the handler; an exit and a wait
  that never ends do not.
\<close>

definition try_catch :: "'a js \<Rightarrow> (js_error \<Rightarrow> 'a js) \<Rightarrow> 'a js" where
  "try_catch m h w =
     (case m w of
        (Throw e, w') \<Rightarrow> h e w'
      | (Normal x, w') \<Rightarrow> (Normal x, w')
      | (Exit n, w') \<Rightarrow> (Exit n, w')
      | (Pending, w') \<Rightarrow> (Pending, w'))"

definition console_log :: "string \<Rightarrow> unit js" where
  "console_log s w = (Normal (), w\<lparr>stdout := stdout w @ [s]\<rparr>)"

definition process_exit :: "int \<Rightarrow> 'a js" where
  "process_exit n w = (Exit n, w)"

definition lift_result :: "js_error + 'a \<Rightarrow> 'a js" where
  "lift_result r = (case r of Inl e \<Rightarrow> js_throw e | Inr x \<Rightarrow> js_return x)"

subsection \<open>Built-in operations the script uses\<close>

text \<open>\<^verbatim>\<open>s.includes(pat)\<close>: \<open>pat\<close> occurs in \<open>s\<close> as a contiguous run.\<close>

fun str_includes :: "string \<Rightarrow> string \<Rightarrow> bool" where
  "str_includes [] pat = (pat = [])"
| "str_includes (c # cs) pat = (take (length pat) (c # cs) = pat \<or> str_includes cs pat)"

text \<open>The decimal form of an integer, as a template literal prints a status code or a count.\<close>

fun digits :: "nat \<Rightarrow> string" where
  "digits n =
     (if n < 10 then [''0123456789'' ! n]
      else digits (n div 10) @ [''0123456789'' ! (n mod 10)])"

declare digits.simps [simp del]

definition Number_toString :: "int \<Rightarrow> string" where
  "Number_toString i = (if i < 0 then ''-'' @ digits (nat (- i)) else digits (nat i))"

text \<open>
  Reading a property of a parsed value: \<^verbatim>\<open>null\<close> throws a \<^verbatim>\<open>TypeError\<close>, an object gives
  its own property or \<^verbatim>\<open>undefined\<close> (\<open>None\<close>), and every other value gives \<^verbatim>\<open>undefined\<close>
  for the three names the script reads.
\<close>

definition TypeError :: "string \<Rightarrow> js_error" where
  "TypeError m = \<lparr>js_error.code = None, message = m\<rparr>"

definition get_prop :: "json \<Rightarrow> string \<Rightarrow> json option js" where
  "get_prop v k =
     (case v of
        JNull \<Rightarrow> js_throw (TypeError (''Cannot read properties of null (reading '' @ [CHR 0x27] @ k @ [CHR 0x27] @ '')''))
      | JObject kvs \<Rightarrow> js_return (map_of kvs k)
      | _ \<Rightarrow> js_return None)"

text \<open>The truth value of a condition: \<^verbatim>\<open>undefined\<close>, \<^verbatim>\<open>null\<close>, \<^verbatim>\<open>false\<close>, \<^verbatim>\<open>0\<close> and \<^verbatim>\<open>""\<close> are false.\<close>

fun ToBoolean :: "json option \<Rightarrow> bool" where
  "ToBoolean None = False"
| "ToBoolean (Some JNull) = False"
| "ToBoolean (Some (JBool b)) = b"
| "ToBoolean (Some (JNumber n)) = (n \<noteq> Finite 0)"
| "ToBoolean (Some (JString s)) = (s \<noteq> [])"
| "ToBoolean (Some (JArray xs)) = True"
| "ToBoolean (Some (JObject kvs)) = True"

text \<open>A value inside a template literal.\<close>

definition template :: "runtime \<Rightarrow> json option \<Rightarrow> string js" where
  "template rt v =
     (case v of
        None \<Rightarrow> js_return ''undefined''
      | Some j \<Rightarrow> lift_result (ToString rt j))"

section \<open>Configuration (lines 7-32)\<close>

definition services :: "service list" where
  "services =
     [\<lparr>name = ''Vanna AI Service'', url = ''http://localhost:8000/health'', critical = True\<rparr>,
      \<lparr>name = ''API Backend'', url = ''http://localhost:4000/api/chat/health'', critical = True\<rparr>,
      \<lparr>name = ''Web Frontend'', url = ''http://localhost:3000'', critical = False\<rparr>]"

definition colors_green :: string where "colors_green = CHR 0x1B # ''[32m''"
definition colors_red :: string where "colors_red = CHR 0x1B # ''[31m''"
definition colors_yellow :: string where "colors_yellow = CHR 0x1B # ''[33m''"
definition colors_blue :: string where "colors_blue = CHR 0x1B # ''[34m''"
definition colors_reset :: string where "colors_reset = CHR 0x1B # ''[0m''"

text \<open>The three symbols of the messages, as the bytes the source file holds.\<close>

definition sym_ok :: string where
  "sym_ok = [CHR 0xC3, CHR 0xA2, CHR 0xC5, CHR 0x93, CHR 0xE2, CHR 0x80, CHR 0x9C]"

definition sym_warn :: string where
  "sym_warn = [CHR 0xC3, CHR 0xA2, CHR 0xC5, CHR 0xA1, CHR 0xC2, CHR 0xA0]"

definition sym_fail :: string where
  "sym_fail = [CHR 0xC3, CHR 0xA2, CHR 0xC5, CHR 0x93, CHR 0xE2, CHR 0x80, CHR 0x94]"

definition sym_party :: string where
  "sym_party = [CHR 0xC3, CHR 0xB0, CHR 0xC5, CHR 0xB8, CHR 0xC5, CHR 0xBD, CHR 0xE2, CHR 0x80, CHR 0xB0]"

section \<open>makeRequest (lines 34-62)\<close>

text \<open>
  The promise resolves with status, body and headers when the response ends, rejects
  with \<^verbatim>\<open>new Error('Request timeout')\<close> on the timeout event and with the client's own
  error on the error event. Awaiting a rejected promise throws. Nothing else settles the
  promise: when the response is cut off after its headers the \<^verbatim>\<open>await\<close> never resumes.
  The request is recorded.
\<close>

definition makeRequest :: "runtime \<Rightarrow> string \<Rightarrow> response js" where
  "makeRequest rt u w =
     ((case net rt (length (requests w)) u of
         Responded sc chunks hs \<Rightarrow> Normal \<lparr>response.status = sc, data = concat chunks, headers = hs\<rparr>
       | TimedOut \<Rightarrow> Throw \<lparr>js_error.code = None, message = ''Request timeout''\<rparr>
       | Failed err \<Rightarrow> Throw err
       | Aborted \<Rightarrow> Pending),
      w\<lparr>requests := requests w @ [u]\<rparr>)"

section \<open>checkService (lines 64-110)\<close>

text \<open>One of the three guarded prints of lines 76-84.\<close>

definition show_field :: "runtime \<Rightarrow> json \<Rightarrow> string \<Rightarrow> (json option \<Rightarrow> string js) \<Rightarrow> string \<Rightarrow> unit js" where
  "show_field rt d k conv label =
     js_bind (get_prop d k) (\<lambda>c.
       if ToBoolean c then
         js_bind (get_prop d k) (\<lambda>v.
         js_bind (conv v) (\<lambda>s.
         console_log (label @ s)))
       else js_return ())"

text \<open>\<^verbatim>\<open>JSON.stringify(data.services)\<close>, reached with a value that is not \<^verbatim>\<open>undefined\<close>.\<close>

definition stringify :: "runtime \<Rightarrow> json option \<Rightarrow> string js" where
  "stringify rt v =
     (case v of
        None \<Rightarrow> js_return ''undefined''
      | Some j \<Rightarrow> js_return (JSON_stringify rt j))"

text \<open>The inner \<^verbatim>\<open>try\<close> of lines 73-87: whatever is thrown inside it is dropped.\<close>

definition parse_info :: "runtime \<Rightarrow> string \<Rightarrow> unit js" where
  "parse_info rt body =
     try_catch
       (js_bind (lift_result (JSON_parse rt body)) (\<lambda>d.
          js_then (show_field rt d ''status'' (template rt) ''  Status: '')
         (js_then (show_field rt d ''services'' (stringify rt) ''  Services: '')
                  (show_field rt d ''version'' (template rt) ''  Version: ''))))
       (\<lambda>e. js_return ())"

definition checkService :: "runtime \<Rightarrow> service \<Rightarrow> verdict js" where
  "checkService rt svc =
     js_then (console_log (colors_blue @ ''Checking '' @ name svc @ ''...'' @ colors_reset))
    (try_catch
       (js_bind (makeRequest rt (url svc)) (\<lambda>response.
          if 200 \<le> response.status response \<and> response.status response < 300 then
            js_then (console_log (colors_green @ sym_ok @ '' '' @ name svc @ '' is healthy (''
                       @ Number_toString (response.status response) @ '')'' @ colors_reset))
           (js_then (parse_info rt (data response))
                    (js_return \<lparr>service = name svc, status = ''healthy'',
                                code = Some (response.status response), error = None\<rparr>))
          else
            js_then (console_log (colors_yellow @ sym_warn @ '' '' @ name svc @ '' returned ''
                       @ Number_toString (response.status response) @ colors_reset))
                    (js_return \<lparr>service = name svc, status = ''warning'',
                                code = Some (response.status response), error = None\<rparr>)))
       (\<lambda>err.
          let isCritical = critical svc;
              color = (if isCritical then colors_red else colors_yellow);
              symbol = (if isCritical then sym_fail else sym_warn)
          in
            js_then (console_log (color @ symbol @ '' '' @ name svc @ '' is not accessible'' @ colors_reset))
           (js_then (console_log (''  Error: '' @ message err))
           (js_then (if js_error.code err = Some ''ECONNREFUSED'' then
                       console_log (''  Suggestion: Make sure '' @ name svc @ '' is running'')
                     else if str_includes (message err) ''timeout'' then
                       console_log ''  Suggestion: Service may be slow to respond or overloaded''
                     else js_return ())
                    (js_return \<lparr>service = name svc, status = ''error'',
                                code = None, error = Some (message err)\<rparr>)))))"

section \<open>checkDatabase (lines 112-132)\<close>

definition checkDatabase :: "runtime \<Rightarrow> verdict js" where
  "checkDatabase rt =
     js_then (console_log (colors_blue @ ''Checking Database Connection...'' @ colors_reset))
    (try_catch
       (js_bind (makeRequest rt ''http://localhost:4000/api/stats'') (\<lambda>response.
          if 200 \<le> response.status response \<and> response.status response < 300 then
            js_then (console_log (colors_green @ sym_ok @ '' Database connection is working'' @ colors_reset))
                    (js_return \<lparr>service = ''Database'', status = ''healthy'',
                                code = None, error = None\<rparr>)
          else
            js_then (console_log (colors_yellow @ sym_warn
                       @ '' Database connection may have issues (API returned ''
                       @ Number_toString (response.status response) @ '')'' @ colors_reset))
                    (js_return \<lparr>service = ''Database'', status = ''warning'',
                                code = Some (response.status response), error = None\<rparr>)))
       (\<lambda>err.
          js_then (console_log (colors_red @ sym_fail @ '' Database connection failed'' @ colors_reset))
         (js_then (console_log (''  Error: '' @ message err))
         (js_then (console_log ''  Suggestion: Check DATABASE_URL and ensure PostgreSQL is running'')
                  (js_return \<lparr>service = ''Database'', status = ''error'',
                              code = None, error = Some (message err)\<rparr>)))))"

section \<open>main (lines 134-178)\<close>

text \<open>The loop of lines 140-144 over the remaining services, \<open>results\<close> being the array so far.\<close>

fun check_all :: "runtime \<Rightarrow> service list \<Rightarrow> verdict list \<Rightarrow> verdict list js" where
  "check_all rt [] results = js_return results"
| "check_all rt (svc # rest) results =
     js_bind (checkService rt svc) (\<lambda>result.
     js_then (console_log [])
             (check_all rt rest (results @ [result])))"

text \<open>
  Lines 135-149: the banner, the loop and the database check. The value is the array
  \<open>results\<close> as it stands at line 150, the Report of the run.
\<close>

definition collect :: "runtime \<Rightarrow> service list \<Rightarrow> verdict list js" where
  "collect rt svcs =
     js_then (console_log (colors_blue @ ''=== Analytics Dashboard Health Check ==='' @ colors_reset @ [CHR 0x0A]))
    (js_bind (check_all rt svcs []) (\<lambda>results.
     js_bind (checkDatabase rt) (\<lambda>dbResult.
     js_then (console_log [])
             (js_return (results @ [dbResult])))))"

text \<open>The three counts of lines 154-156.\<close>

definition count_status :: "string \<Rightarrow> verdict list \<Rightarrow> nat" where
  "count_status s results = length (filter (\<lambda>r. verdict.status r = s) results)"

text \<open>Lines 151-177: the summary and the exit.\<close>

definition summary :: "verdict list \<Rightarrow> unit js" where
  "summary results =
     js_then (console_log (colors_blue @ ''=== Summary ==='' @ colors_reset))
    (let healthy = count_status ''healthy'' results;
         warnings = count_status ''warning'' results;
         errors = count_status ''error'' results
     in
       js_then (console_log (colors_green @ ''Healthy: '' @ Number_toString (int healthy) @ colors_reset))
      (js_then (console_log (colors_yellow @ ''Warnings: '' @ Number_toString (int warnings) @ colors_reset))
      (js_then (console_log (colors_red @ ''Errors: '' @ Number_toString (int errors) @ colors_reset))
      (if errors > 0 then
         js_then (console_log ([CHR 0x0A] @ colors_red @ ''Critical issues detected. Please check the services above.'' @ colors_reset))
        (js_then (console_log ([CHR 0x0A] @ ''Common solutions:''))
        (js_then (console_log ''1. Start Vanna service: cd apps/services/vanna && python -m uvicorn app.main:app --port 8000'')
        (js_then (console_log ''2. Start API backend: cd apps/api && npm run dev'')
        (js_then (console_log ''3. Start web frontend: cd apps/web && npm run dev'')
        (js_then (console_log ''4. Check environment variables in .env files'')
        (js_then (console_log ''5. Ensure PostgreSQL database is running'')
                 (process_exit 1)))))))
       else if warnings > 0 then
         js_then (console_log ([CHR 0x0A] @ colors_yellow @ ''Some services have warnings. The system may still work but with limited functionality.'' @ colors_reset))
                 (process_exit 0)
       else
         js_then (console_log ([CHR 0x0A] @ colors_green @ ''All systems are healthy! '' @ sym_party @ colors_reset))
                 (process_exit 0)))))"

text \<open>\<^verbatim>\<open>main\<close> over a given registry; the script's \<^verbatim>\<open>main\<close> runs it on \<open>services\<close>.\<close>

definition main_on :: "runtime \<Rightarrow> service list \<Rightarrow> unit js" where
  "main_on rt svcs = js_bind (collect rt svcs) summary"

definition main :: "runtime \<Rightarrow> unit js" where
  "main rt = main_on rt services"

section \<open>The process (lines 180-192)\<close>

definition initial_world :: world where
  "initial_world = \<lparr>stdout = [], stderr = [], requests = []\<rparr>"

text \<open>
  Line 192 starts \<^verbatim>\<open>main\<close>. An exit inside it ends the process with that code; a throw
  out of it is a rejected promise, which the handler of lines 186-189 prints before it
  exits with 1; a normal end leaves the process to finish with 0. When \<^verbatim>\<open>main\<close> waits
  for a promise that is never settled, nothing is left to run and the process ends with
  0 as well, having printed what it printed so far.
\<close>

definition run_on :: "runtime \<Rightarrow> service list \<Rightarrow> int \<times> world" where
  "run_on rt svcs =
     (case main_on rt svcs initial_world of
        (Exit n, w) \<Rightarrow> (n, w)
      | (Throw e, w) \<Rightarrow>
          (1, w\<lparr>stderr := stderr w @ [colors_red @ ''Unhandled rejection: '' @ message e @ colors_reset]\<rparr>)
      | (Normal u, w) \<Rightarrow> (0, w)
      | (Pending, w) \<Rightarrow> (0, w))"

definition run :: "runtime \<Rightarrow> int \<times> world" where
  "run rt = run_on rt services"

section \<open>Closed forms of the script's functions\<close>

text \<open>
  The definitions of this section are not in the script: they say in one expression what
  a function of the script computes, and each is proved equal to the embedded code below.
\<close>

definition emit :: "string list \<Rightarrow> world \<Rightarrow> world" where
  "emit ls w = w\<lparr>stdout := stdout w @ ls\<rparr>"

definition sent :: "string list \<Rightarrow> world \<Rightarrow> world" where
  "sent us w = w\<lparr>requests := requests w @ us\<rparr>"

text \<open>The two lines the \<^verbatim>\<open>catch\<close> block of \<^verbatim>\<open>checkService\<close> always prints (lines 99-100).\<close>

definition failure_lines :: "service \<Rightarrow> js_error \<Rightarrow> string list" where
  "failure_lines svc err =
     [(if critical svc then colors_red @ sym_fail else colors_yellow @ sym_warn)
        @ '' '' @ name svc @ '' is not accessible'' @ colors_reset,
      ''  Error: '' @ message err]"

text \<open>
  What is displayed of a healthy response's body. A field is displayed when the parsed
  body is an object that holds it with a truthy value; the fields come in the order
  status, services, version, and the display ends at the first value whose conversion to
  a string throws. A body that does not parse, or parses to anything but an object,
  displays nothing.
\<close>

definition field_text :: "(json \<Rightarrow> js_error + string) \<Rightarrow> json option \<Rightarrow> (js_error + string) option" where
  "field_text conv v =
     (case v of None \<Rightarrow> None | Some j \<Rightarrow> if ToBoolean (Some j) then Some (conv j) else None)"

fun metadata_lines :: "(string \<times> (js_error + string) option) list \<Rightarrow> string list" where
  "metadata_lines [] = []"
| "metadata_lines ((label, None) # fs) = metadata_lines fs"
| "metadata_lines ((label, Some (Inl e)) # fs) = []"
| "metadata_lines ((label, Some (Inr s)) # fs) = (label @ s) # metadata_lines fs"

definition displayed_metadata :: "runtime \<Rightarrow> string \<Rightarrow> string list" where
  "displayed_metadata rt body =
     (case JSON_parse rt body of
        Inr (JObject kvs) \<Rightarrow>
          metadata_lines
            [(''  Status: '', field_text (ToString rt) (map_of kvs ''status'')),
             (''  Services: '', field_text (\<lambda>j. Inr (JSON_stringify rt j)) (map_of kvs ''services'')),
             (''  Version: '', field_text (ToString rt) (map_of kvs ''version''))]
      | _ \<Rightarrow> [])"

text \<open>
  The verdict of \<^verbatim>\<open>checkService\<close> as a function of the target and of what the network
  did; there is none when the response is cut off.
\<close>

definition evaluate :: "service \<Rightarrow> net_event \<Rightarrow> verdict option" where
  "evaluate svc ev =
     (case ev of
        Responded sc chunks hs \<Rightarrow>
          Some \<lparr>service = name svc, status = (if 200 \<le> sc \<and> sc < 300 then ''healthy'' else ''warning''),
                code = Some sc, error = None\<rparr>
      | TimedOut \<Rightarrow>
          Some \<lparr>service = name svc, status = ''error'', code = None, error = Some ''Request timeout''\<rparr>
      | Failed err \<Rightarrow>
          Some \<lparr>service = name svc, status = ''error'', code = None, error = Some (message err)\<rparr>
      | Aborted \<Rightarrow> None)"

text \<open>The verdict of \<^verbatim>\<open>checkDatabase\<close>.\<close>

definition evaluate_db :: "net_event \<Rightarrow> verdict option" where
  "evaluate_db ev =
     (case ev of
        Responded sc chunks hs \<Rightarrow>
          (if 200 \<le> sc \<and> sc < 300
           then Some \<lparr>service = ''Database'', status = ''healthy'', code = None, error = None\<rparr>
           else Some \<lparr>service = ''Database'', status = ''warning'', code = Some sc, error = None\<rparr>)
      | TimedOut \<Rightarrow>
          Some \<lparr>service = ''Database'', status = ''error'', code = None, error = Some ''Request timeout''\<rparr>
      | Failed err \<Rightarrow>
          Some \<lparr>service = ''Database'', status = ''error'', code = None, error = Some (message err)\<rparr>
      | Aborted \<Rightarrow> None)"

text \<open>
  The verdicts of the loop when its first request is the \<open>n\<close>-th of the process, and the
  Report of the run; there is none when one of the responses is cut off.
\<close>

fun evaluate_all :: "runtime \<Rightarrow> nat \<Rightarrow> service list \<Rightarrow> verdict list option" where
  "evaluate_all rt n [] = Some []"
| "evaluate_all rt n (svc # rest) =
     (case evaluate svc (net rt n (url svc)) of
        None \<Rightarrow> None
      | Some v \<Rightarrow> (case evaluate_all rt (Suc n) rest of None \<Rightarrow> None | Some vs \<Rightarrow> Some (v # vs)))"

definition report :: "runtime \<Rightarrow> nat \<Rightarrow> service list \<Rightarrow> verdict list option" where
  "report rt n svcs =
     (case evaluate_all rt n svcs of
        None \<Rightarrow> None
      | Some vs \<Rightarrow>
          (case evaluate_db (net rt (n + length svcs) ''http://localhost:4000/api/stats'') of
             None \<Rightarrow> None
           | Some d \<Rightarrow> Some (vs @ [d])))"

text \<open>What an \<^verbatim>\<open>await\<close> gives: the value, or a wait without end when there is none.\<close>

definition awaited :: "'a option \<Rightarrow> 'a completion" where
  "awaited r = (case r of Some v \<Rightarrow> Normal v | None \<Rightarrow> Pending)"

text \<open>Every request of a run that starts with the \<open>n\<close>-th request of the process is settled.\<close>

fun all_settle :: "runtime \<Rightarrow> nat \<Rightarrow> service list \<Rightarrow> bool" where
  "all_settle rt n [] = (net rt n ''http://localhost:4000/api/stats'' \<noteq> Aborted)"
| "all_settle rt n (svc # rest) = (net rt n (url svc) \<noteq> Aborted \<and> all_settle rt (Suc n) rest)"

section \<open>Recorded runs\<close>

text \<open>
  Concrete runtimes for the examples. The built-ins are recorded on the values the
  examples reach: \<^verbatim>\<open>JSON.parse\<close> on three bodies (every other body is taken as not
  JSON), \<^verbatim>\<open>JSON.stringify\<close> on one object, and the string conversion on strings,
  booleans, \<^verbatim>\<open>null\<close> and objects (numbers and arrays are not recorded).
\<close>

definition body_full :: string where
  \<open>body_full = ''{"status":"ok","services":{"db":true},"version":"1.0"}''\<close>

definition body_zero :: string where
  \<open>body_zero = ''{"version":0}''\<close>

definition recorded_parse :: "string \<Rightarrow> js_error + json" where
  "recorded_parse body =
     (if body = body_full then
        Inr (JObject [(''status'', JString ''ok''), (''services'', JObject [(''db'', JBool True)]),
                      (''version'', JString ''1.0'')])
      else if body = body_zero then Inr (JObject [(''version'', JNumber (Finite 0))])
      else if body = ''null'' then Inr JNull
      else Inl \<lparr>js_error.code = None, message = ''Unexpected token''\<rparr>)"

definition recorded_stringify :: "json \<Rightarrow> string" where
  \<open>recorded_stringify j = (if j = JObject [(''db'', JBool True)] then ''{"db":true}'' else ''null'')\<close>

definition recorded_ToString :: "json \<Rightarrow> js_error + string" where
  "recorded_ToString j =
     (case j of
        JString s \<Rightarrow> Inr s
      | JBool b \<Rightarrow> Inr (if b then ''true'' else ''false'')
      | JNull \<Rightarrow> Inr ''null''
      | JObject kvs \<Rightarrow>
          (if map_of kvs ''toString'' = None then Inr ''[object Object]''
           else Inl (TypeError ''Cannot convert object to primitive value''))
      | _ \<Rightarrow> Inl (TypeError ''not recorded''))"

definition refused :: js_error where
  "refused = \<lparr>js_error.code = Some ''ECONNREFUSED'', message = ''connect ECONNREFUSED 127.0.0.1''\<rparr>"

definition hang_up :: js_error where
  "hang_up = \<lparr>js_error.code = Some ''ECONNRESET'', message = ''socket hang up''\<rparr>"

text \<open>A runtime whose network answers by URL from a table; a URL not in the table refuses.\<close>

definition scripted :: "(string \<times> net_event) list \<Rightarrow> runtime" where
  "scripted tbl =
     \<lparr>net = (\<lambda>n u. case map_of tbl u of Some ev \<Rightarrow> ev | None \<Rightarrow> Failed refused),
      JSON_parse = recorded_parse,
      JSON_stringify = recorded_stringify,
      ToString = recorded_ToString\<rparr>"

text \<open>One healthy service with metadata, one answering 503, one refusing; the database check passes.\<close>

definition mixed_rt :: runtime where
  "mixed_rt = scripted
     [(''http://localhost:8000/health'', Responded 200 [body_full] []),
      (''http://localhost:4000/api/chat/health'', Responded 503 [''Service Unavailable''] []),
      (''http://localhost:3000'', Failed refused),
      (''http://localhost:4000/api/stats'', Responded 200 [''OK''] [])]"

text \<open>Nothing is listening.\<close>

definition down_rt :: runtime where
  "down_rt = scripted []"

text \<open>The frontend answers with a redirect.\<close>

definition redirect_rt :: runtime where
  "redirect_rt = scripted
     [(''http://localhost:3000'', Responded 301 [] [(''location'', ''/login'')])]"

text \<open>The AI service answers 200 with a body whose only field is falsy.\<close>

definition zero_rt :: runtime where
  "zero_rt = scripted
     [(''http://localhost:8000/health'', Responded 200 [body_zero] [])]"

text \<open>The AI service times out, the backend resets the connection.\<close>

definition slow_rt :: runtime where
  "slow_rt = scripted
     [(''http://localhost:8000/health'', TimedOut),
      (''http://localhost:4000/api/chat/health'', Failed hang_up)]"

text \<open>The AI service closes the connection after the headers of its response.\<close>

definition cut_rt :: runtime where
  "cut_rt = scripted
     [(''http://localhost:8000/health'', Aborted)]"

text \<open>The AI service is healthy; the backend closes the connection after its headers.\<close>

definition cut_second_rt :: runtime where
  "cut_second_rt = scripted
     [(''http://localhost:8000/health'', Responded 200 [body_full] []),
      (''http://localhost:4000/api/chat/health'', Aborted)]"

text \<open>Everything answers 200; only the AI service answers in JSON.\<close>

definition up_rt :: runtime where
  "up_rt = scripted
     [(''http://localhost:8000/health'', Responded 200 [body_full] []),
      (''http://localhost:4000/api/chat/health'', Responded 200 [''OK''] []),
      (''http://localhost:3000'', Responded 200 [''<html>'', ''</html>''] []),
      (''http://localhost:4000/api/stats'', Responded 200 [''OK''] [])]"

section \<open>The built-in operations\<close>

text \<open>\<open>str_includes\<close> is the substring test, and the decimal form is the expected one.\<close>

lemma take_eq_prefix: "take (length pat) s = pat \<longleftrightarrow> (\<exists>ss. s = pat @ ss)"
  by (metis append_eq_conv_conj append_take_drop_id)

lemma str_includes_iff: "str_includes s pat \<longleftrightarrow> (\<exists>ps ss. s = ps @ pat @ ss)"
proof (induction s)
  case Nil
  then show ?case by simp
next
  case (Cons c cs)
  have "(\<exists>ps ss. c # cs = ps @ pat @ ss) \<longleftrightarrow>
        (\<exists>ss. c # cs = pat @ ss) \<or> (\<exists>ps ss. cs = ps @ pat @ ss)"
  proof
    assume "\<exists>ps ss. c # cs = ps @ pat @ ss"
    then obtain ps ss where e: "c # cs = ps @ pat @ ss" by blast
    show "(\<exists>ss. c # cs = pat @ ss) \<or> (\<exists>ps ss. cs = ps @ pat @ ss)"
    proof (cases ps)
      case Nil
      with e show ?thesis by auto
    next
      case (Cons p ps')
      with e have "cs = ps' @ pat @ ss" by simp
      then show ?thesis by blast
    qed
  next
    assume "(\<exists>ss. c # cs = pat @ ss) \<or> (\<exists>ps ss. cs = ps @ pat @ ss)"
    then show "\<exists>ps ss. c # cs = ps @ pat @ ss"
    proof
      assume "\<exists>ss. c # cs = pat @ ss"
      then obtain ss where "c # cs = [] @ pat @ ss" by auto
      then show ?thesis by blast
    next
      assume "\<exists>ps ss. cs = ps @ pat @ ss"
      then obtain ps ss where "c # cs = (c # ps) @ pat @ ss" by auto
      then show ?thesis by blast
    qed
  qed
  then show ?case using Cons.IH take_eq_prefix [of pat "c # cs"] by simp
qed

lemma Number_toString_examples:
  "Number_toString 503 = ''503''" "Number_toString (- 7) = ''-7''" "Number_toString 0 = ''0''"
  by (simp_all add: Number_toString_def digits.simps)

section \<open>The embedded code in closed form\<close>

lemmas js_defs = js_return_def js_throw_def js_bind_def js_then_def try_catch_def
  process_exit_def lift_result_def

lemma emit_Nil [simp]: "emit [] w = w"
  by (simp add: emit_def)

lemma emit_emit [simp]: "emit b (emit a w) = emit (a @ b) w"
  by (simp add: emit_def)

lemma emit_fields [simp]:
  "stdout (emit ls w) = stdout w @ ls" "stderr (emit ls w) = stderr w"
  "requests (emit ls w) = requests w"
  by (simp_all add: emit_def)

lemma console_log_emit: "console_log s w = (Normal (), emit [s] w)"
  by (simp add: console_log_def emit_def)

lemma awaited_simps [simp]: "awaited (Some v) = Normal v" "awaited None = Pending"
  by (simp_all add: awaited_def)

lemma show_field_object:
  "show_field rt (JObject kvs) k conv label w =
     (if ToBoolean (map_of kvs k) then
        (case conv (map_of kvs k) w of
           (Normal s, w') \<Rightarrow> (Normal (), emit [label @ s] w')
         | (Throw e, w') \<Rightarrow> (Throw e, w')
         | (Exit n, w') \<Rightarrow> (Exit n, w')
         | (Pending, w') \<Rightarrow> (Pending, w'))
      else (Normal (), w))"
  by (simp add: show_field_def get_prop_def js_defs console_log_emit split: prod.splits completion.splits)

lemma show_field_other:
  "d \<noteq> JNull \<Longrightarrow> \<forall>kvs. d \<noteq> JObject kvs \<Longrightarrow> show_field rt d k conv label w = (Normal (), w)"
  by (cases d) (simp_all add: show_field_def get_prop_def js_defs)

lemma show_field_null:
  "\<exists>e. show_field rt JNull k conv label w = (Throw e, w)"
  by (simp add: show_field_def get_prop_def js_defs)

lemma template_Some:
  "template rt (Some j) w = (case ToString rt j of Inl e \<Rightarrow> (Throw e, w) | Inr s \<Rightarrow> (Normal s, w))"
  by (simp add: template_def js_defs split: sum.splits)

lemma stringify_Some: "stringify rt (Some j) w = (Normal (JSON_stringify rt j), w)"
  by (simp add: stringify_def js_defs)

lemma ToBoolean_Some: "ToBoolean v \<Longrightarrow> \<exists>j. v = Some j"
  by (cases v) simp_all

lemma parse_info_eq:
  "parse_info rt body w = (Normal (), emit (displayed_metadata rt body) w)"
proof (cases "JSON_parse rt body")
  case (Inl e)
  then show ?thesis
    by (simp add: parse_info_def displayed_metadata_def js_defs)
next
  case (Inr d)
  show ?thesis
  proof (cases d)
    case JNull
    then show ?thesis using Inr show_field_null[of rt "''status''" "template rt" "''  Status: ''" w]
      by (auto simp add: parse_info_def displayed_metadata_def js_defs)
  next
    case (JObject kvs)
    then show ?thesis using Inr
      by (auto simp add: parse_info_def displayed_metadata_def js_defs show_field_object
          field_text_def template_Some stringify_Some split: option.splits sum.splits dest: ToBoolean_Some)
  qed (use Inr in \<open>simp_all add: parse_info_def displayed_metadata_def js_defs show_field_other\<close>)
qed

lemma sent_Nil [simp]: "sent [] w = w"
  by (simp add: sent_def)

lemma sent_sent [simp]: "sent b (sent a w) = sent (a @ b) w"
  by (simp add: sent_def)

lemma emit_sent [simp]: "emit ls (sent us w) = sent us (emit ls w)"
  by (simp add: sent_def emit_def)

lemma sent_fields [simp]:
  "stdout (sent us w) = stdout w" "stderr (sent us w) = stderr w"
  "requests (sent us w) = requests w @ us"
  by (simp_all add: sent_def)

lemma ex_out [simp]: "\<exists>out. sent us (emit ls w) = sent us (emit out w)"
  by blast

lemma makeRequest_eq:
  "makeRequest rt u w =
     ((case net rt (length (requests w)) u of
         Responded sc chunks hs \<Rightarrow> Normal \<lparr>response.status = sc, data = concat chunks, headers = hs\<rparr>
       | TimedOut \<Rightarrow> Throw \<lparr>js_error.code = None, message = ''Request timeout''\<rparr>
       | Failed err \<Rightarrow> Throw err
       | Aborted \<Rightarrow> Pending),
      sent [u] w)"
  by (simp add: makeRequest_def sent_def)

lemma checkService_healthy:
  assumes "net rt (length (requests w)) (url svc) = Responded sc chunks hs"
    and "200 \<le> sc" and "sc < 300"
  shows "checkService rt svc w =
     (Normal \<lparr>service = name svc, status = ''healthy'', code = Some sc, error = None\<rparr>,
      sent [url svc]
        (emit ([colors_blue @ ''Checking '' @ name svc @ ''...'' @ colors_reset,
                colors_green @ sym_ok @ '' '' @ name svc @ '' is healthy (''
                  @ Number_toString sc @ '')'' @ colors_reset]
               @ displayed_metadata rt (concat chunks)) w))"
  using assms
  by (simp add: checkService_def js_defs console_log_emit makeRequest_eq parse_info_eq)

lemma checkService_warning:
  assumes "net rt (length (requests w)) (url svc) = Responded sc chunks hs"
    and "\<not> (200 \<le> sc \<and> sc < 300)"
  shows "checkService rt svc w =
     (Normal \<lparr>service = name svc, status = ''warning'', code = Some sc, error = None\<rparr>,
      sent [url svc]
        (emit [colors_blue @ ''Checking '' @ name svc @ ''...'' @ colors_reset,
               colors_yellow @ sym_warn @ '' '' @ name svc @ '' returned ''
                  @ Number_toString sc @ colors_reset] w))"
  using assms
  by (cases "200 \<le> sc") (simp_all add: checkService_def js_defs console_log_emit makeRequest_eq)

lemma checkService_catch:
  assumes "makeRequest rt (url svc) (emit [colors_blue @ ''Checking '' @ name svc @ ''...'' @ colors_reset] w)
             = (Throw err, w')"
  shows "checkService rt svc w =
     (Normal \<lparr>service = name svc, status = ''error'', code = None, error = Some (message err)\<rparr>,
      emit (failure_lines svc err
            @ (if js_error.code err = Some ''ECONNREFUSED'' then
                 [''  Suggestion: Make sure '' @ name svc @ '' is running'']
               else if str_includes (message err) ''timeout'' then
                 [''  Suggestion: Service may be slow to respond or overloaded'']
               else [])) w')"
  using assms
  by (simp add: checkService_def js_defs console_log_emit failure_lines_def Let_def)

lemma checkService_failed:
  assumes "net rt (length (requests w)) (url svc) = Failed err"
  shows "checkService rt svc w =
     (Normal \<lparr>service = name svc, status = ''error'', code = None, error = Some (message err)\<rparr>,
      sent [url svc]
        (emit ([colors_blue @ ''Checking '' @ name svc @ ''...'' @ colors_reset]
               @ failure_lines svc err
               @ (if js_error.code err = Some ''ECONNREFUSED'' then
                    [''  Suggestion: Make sure '' @ name svc @ '' is running'']
                  else if str_includes (message err) ''timeout'' then
                    [''  Suggestion: Service may be slow to respond or overloaded'']
                  else [])) w))"
proof -
  let ?w0 = "emit [colors_blue @ ''Checking '' @ name svc @ ''...'' @ colors_reset] w"
  have "makeRequest rt (url svc) ?w0 = (Throw err, sent [url svc] ?w0)"
    by (simp add: makeRequest_eq assms)
  from checkService_catch [OF this] show ?thesis by simp
qed

lemma checkService_timeout:
  assumes "net rt (length (requests w)) (url svc) = TimedOut"
  shows "checkService rt svc w =
     (Normal \<lparr>service = name svc, status = ''error'', code = None, error = Some ''Request timeout''\<rparr>,
      sent [url svc]
        (emit ([colors_blue @ ''Checking '' @ name svc @ ''...'' @ colors_reset]
               @ failure_lines svc \<lparr>js_error.code = None, message = ''Request timeout''\<rparr>
               @ [''  Suggestion: Service may be slow to respond or overloaded'']) w))"
proof -
  let ?w0 = "emit [colors_blue @ ''Checking '' @ name svc @ ''...'' @ colors_reset] w"
  have "makeRequest rt (url svc) ?w0
          = (Throw \<lparr>js_error.code = None, message = ''Request timeout''\<rparr>, sent [url svc] ?w0)"
    by (simp add: makeRequest_eq assms)
  from checkService_catch [OF this] show ?thesis by simp
qed

lemma checkService_aborted:
  assumes "net rt (length (requests w)) (url svc) = Aborted"
  shows "checkService rt svc w =
     (Pending, sent [url svc] (emit [colors_blue @ ''Checking '' @ name svc @ ''...'' @ colors_reset] w))"
  using assms by (simp add: checkService_def js_defs console_log_emit makeRequest_eq)

lemma checkService_evaluate:
  "\<exists>out. checkService rt svc w =
     (awaited (evaluate svc (net rt (length (requests w)) (url svc))), sent [url svc] (emit out w))"
proof (cases "net rt (length (requests w)) (url svc)")
  case (Responded sc chunks hs)
  show ?thesis
  proof (cases "200 \<le> sc \<and> sc < 300")
    case True
    then have "awaited (evaluate svc (net rt (length (requests w)) (url svc)))
        = Normal \<lparr>service = name svc, status = ''healthy'', code = Some sc, error = None\<rparr>"
      using Responded by (simp add: evaluate_def)
    then show ?thesis using checkService_healthy [OF Responded] True by metis
  next
    case False
    then have "awaited (evaluate svc (net rt (length (requests w)) (url svc)))
        = Normal \<lparr>service = name svc, status = ''warning'', code = Some sc, error = None\<rparr>"
      using Responded by (simp add: evaluate_def)
    then show ?thesis using checkService_warning [OF Responded False] by metis
  qed
next
  case TimedOut
  then have "awaited (evaluate svc (net rt (length (requests w)) (url svc)))
      = Normal \<lparr>service = name svc, status = ''error'', code = None, error = Some ''Request timeout''\<rparr>"
    by (simp add: evaluate_def)
  then show ?thesis using checkService_timeout [OF TimedOut] by metis
next
  case (Failed err)
  then have "awaited (evaluate svc (net rt (length (requests w)) (url svc)))
      = Normal \<lparr>service = name svc, status = ''error'', code = None, error = Some (message err)\<rparr>"
    by (simp add: evaluate_def)
  then show ?thesis using checkService_failed [OF Failed] by metis
next
  case Aborted
  then have "awaited (evaluate svc (net rt (length (requests w)) (url svc))) = Pending"
    by (simp add: evaluate_def)
  then show ?thesis using checkService_aborted [OF Aborted] by metis
qed

lemma checkDatabase_evaluate:
  "\<exists>out. checkDatabase rt w =
     (awaited (evaluate_db (net rt (length (requests w)) ''http://localhost:4000/api/stats'')),
      sent [''http://localhost:4000/api/stats''] (emit out w))"
proof (cases "net rt (length (requests w)) ''http://localhost:4000/api/stats''")
  case (Responded sc chunks hs)
  then show ?thesis
    by (cases "200 \<le> sc \<and> sc < 300")
       (auto simp add: checkDatabase_def js_defs console_log_emit makeRequest_eq evaluate_db_def)
next
  case TimedOut
  then show ?thesis
    by (simp add: checkDatabase_def js_defs console_log_emit makeRequest_eq evaluate_db_def)
next
  case (Failed err)
  then show ?thesis
    by (simp add: checkDatabase_def js_defs console_log_emit makeRequest_eq evaluate_db_def)
next
  case Aborted
  then show ?thesis
    by (simp add: checkDatabase_def js_defs console_log_emit makeRequest_eq evaluate_db_def)
qed

lemma check_all_evaluate:
  "\<exists>out k. check_all rt svcs acc w =
       (awaited (map_option ((@) acc) (evaluate_all rt (length (requests w)) svcs)),
        sent (take k (map url svcs)) (emit out w))
     \<and> k \<le> length svcs
     \<and> (evaluate_all rt (length (requests w)) svcs \<noteq> None \<longrightarrow> k = length svcs)
     \<and> (evaluate_all rt (length (requests w)) svcs = None \<longrightarrow> 0 < k)"
proof (induction svcs arbitrary: acc w)
  case Nil
  have "check_all rt [] acc w =
       (awaited (map_option ((@) acc) (evaluate_all rt (length (requests w)) [])),
        sent (take 0 (map url [])) (emit [] w))"
    by (simp add: js_defs)
  then show ?case by (intro exI [of _ "[]"] exI [of _ 0]) simp
next
  case (Cons svc rest)
  let ?n = "length (requests w)"
  obtain o1 where c: "checkService rt svc w =
     (awaited (evaluate svc (net rt ?n (url svc))), sent [url svc] (emit o1 w))"
    using checkService_evaluate by blast
  show ?case
  proof (cases "evaluate svc (net rt ?n (url svc))")
    case None
    then have e: "evaluate_all rt ?n (svc # rest) = None" by simp
    have "check_all rt (svc # rest) acc w =
       (awaited (map_option ((@) acc) (evaluate_all rt ?n (svc # rest))),
        sent (take 1 (map url (svc # rest))) (emit o1 w))"
      using c None by (simp add: js_defs)
    moreover have "(1::nat) \<le> length (svc # rest)" by simp
    ultimately show ?thesis using e by (intro exI [of _ o1] exI [of _ 1]) simp
  next
    case (Some v)
    let ?w1 = "sent [url svc] (emit (o1 @ [[]]) w)"
    have step: "check_all rt (svc # rest) acc w = check_all rt rest (acc @ [v]) ?w1"
      using c Some by (simp add: js_defs console_log_emit)
    have n1: "length (requests ?w1) = Suc ?n" by simp
    from Cons.IH [of "acc @ [v]" ?w1]
    obtain o2 k where r: "check_all rt rest (acc @ [v]) ?w1 =
       (awaited (map_option ((@) (acc @ [v])) (evaluate_all rt (Suc ?n) rest)),
        sent (take k (map url rest)) (emit o2 ?w1))"
      and k1: "k \<le> length rest"
      and k2: "evaluate_all rt (Suc ?n) rest \<noteq> None \<longrightarrow> k = length rest"
      and k3: "evaluate_all rt (Suc ?n) rest = None \<longrightarrow> 0 < k"
      unfolding n1 by (elim exE conjE)
    have w: "sent (take k (map url rest)) (emit o2 ?w1)
        = sent (take (Suc k) (map url (svc # rest))) (emit (o1 @ [[]] @ o2) w)"
      by simp
    show ?thesis
    proof (cases "evaluate_all rt (Suc ?n) rest")
      case None
      then have e: "evaluate_all rt ?n (svc # rest) = None" using Some by simp
      have "check_all rt (svc # rest) acc w =
         (awaited (map_option ((@) acc) (evaluate_all rt ?n (svc # rest))),
          sent (take (Suc k) (map url (svc # rest))) (emit (o1 @ [[]] @ o2) w))"
        unfolding step r w e using None by simp
      moreover have "Suc k \<le> length (svc # rest)" using k1 by simp
      ultimately show ?thesis using e
        by (intro exI [of _ "o1 @ [[]] @ o2"] exI [of _ "Suc k"]) simp
    next
      case (Some vs)
      then have e: "evaluate_all rt ?n (svc # rest) = Some (v # vs)"
        using \<open>evaluate svc (net rt ?n (url svc)) = Some v\<close> by simp
      have kk: "k = length rest" using k2 Some by simp
      have "check_all rt (svc # rest) acc w =
         (awaited (map_option ((@) acc) (evaluate_all rt ?n (svc # rest))),
          sent (take (Suc k) (map url (svc # rest))) (emit (o1 @ [[]] @ o2) w))"
        unfolding step r w e using Some by simp
      moreover have "Suc k \<le> length (svc # rest)" "Suc k = length (svc # rest)"
        using kk by simp_all
      ultimately show ?thesis using e
        by (intro exI [of _ "o1 @ [[]] @ o2"] exI [of _ "Suc k"]) simp
    qed
  qed
qed

lemma collect_report:
  "\<exists>out k. collect rt svcs w =
       (awaited (report rt (length (requests w)) svcs),
        sent (take k (map url svcs @ [''http://localhost:4000/api/stats''])) (emit out w))
     \<and> 0 < k
     \<and> (report rt (length (requests w)) svcs \<noteq> None \<longrightarrow> k = length svcs + 1)"
proof -
  let ?n = "length (requests w)"
  let ?w0 = "emit [colors_blue @ ''=== Analytics Dashboard Health Check ==='' @ colors_reset @ [CHR 0x0A]] w"
  have n0: "length (requests ?w0) = ?n" by simp
  from check_all_evaluate [of rt svcs "[]" ?w0]
  obtain o1 k where a: "check_all rt svcs [] ?w0 =
       (awaited (map_option ((@) []) (evaluate_all rt ?n svcs)),
        sent (take k (map url svcs)) (emit o1 ?w0))"
    and k1: "k \<le> length svcs"
    and k2: "evaluate_all rt ?n svcs \<noteq> None \<longrightarrow> k = length svcs"
    and k3: "evaluate_all rt ?n svcs = None \<longrightarrow> 0 < k"
    unfolding n0 by (elim exE conjE)
  show ?thesis
  proof (cases "evaluate_all rt ?n svcs")
    case None
    then have r: "report rt ?n svcs = None" by (simp add: report_def)
    have t: "take k (map url svcs) = take k (map url svcs @ [''http://localhost:4000/api/stats''])"
      using k1 by simp
    have "collect rt svcs w =
       (awaited (report rt ?n svcs),
        sent (take k (map url svcs @ [''http://localhost:4000/api/stats'']))
          (emit ([colors_blue @ ''=== Analytics Dashboard Health Check ==='' @ colors_reset @ [CHR 0x0A]] @ o1) w))"
      unfolding r t [symmetric] using a None by (simp add: collect_def js_defs console_log_emit)
    moreover have "0 < k" using k3 None by simp
    ultimately show ?thesis using r by blast
  next
    case (Some vs)
    then have kk: "k = length svcs" using k2 by simp
    let ?w1 = "sent (map url svcs) (emit o1 ?w0)"
    have a': "check_all rt svcs [] ?w0 = (Normal vs, ?w1)"
      using a Some kk by simp
    have n1: "length (requests ?w1) = ?n + length svcs" by simp
    from checkDatabase_evaluate [of rt ?w1]
    obtain o2 where d: "checkDatabase rt ?w1 =
       (awaited (evaluate_db (net rt (?n + length svcs) ''http://localhost:4000/api/stats'')),
        sent [''http://localhost:4000/api/stats''] (emit o2 ?w1))"
      unfolding n1 by (elim exE)
    have "\<exists>out. collect rt svcs w =
       (awaited (report rt ?n svcs),
        sent (take (length svcs + 1) (map url svcs @ [''http://localhost:4000/api/stats''])) (emit out w))"
    proof (cases "evaluate_db (net rt (?n + length svcs) ''http://localhost:4000/api/stats'')")
      case None
      then have "collect rt svcs w =
         (awaited (report rt ?n svcs),
          sent (take (length svcs + 1) (map url svcs @ [''http://localhost:4000/api/stats'']))
            (emit ([colors_blue @ ''=== Analytics Dashboard Health Check ==='' @ colors_reset @ [CHR 0x0A]]
                   @ o1 @ o2) w))"
        using a' d Some by (simp add: collect_def report_def js_defs console_log_emit)
      then show ?thesis by (rule exI)
    next
      case (Some dv)
      then have "collect rt svcs w =
         (awaited (report rt ?n svcs),
          sent (take (length svcs + 1) (map url svcs @ [''http://localhost:4000/api/stats'']))
            (emit ([colors_blue @ ''=== Analytics Dashboard Health Check ==='' @ colors_reset @ [CHR 0x0A]]
                   @ o1 @ o2 @ [[]]) w))"
        using a' d \<open>evaluate_all rt ?n svcs = Some vs\<close>
        by (simp add: collect_def report_def js_defs console_log_emit)
      then show ?thesis by (rule exI)
    qed
    then obtain out where "collect rt svcs w =
       (awaited (report rt ?n svcs),
        sent (take (length svcs + 1) (map url svcs @ [''http://localhost:4000/api/stats''])) (emit out w))"
      by (elim exE)
    then show ?thesis
      by (intro exI [of _ out] exI [of _ "length svcs + 1"]) simp
  qed
qed

lemma collect_settled:
  assumes "report rt (length (requests w)) svcs = Some rep"
  shows "\<exists>out. collect rt svcs w =
     (Normal rep, sent (map url svcs @ [''http://localhost:4000/api/stats'']) (emit out w))"
proof -
  from collect_report [of rt svcs w]
  obtain out k where "collect rt svcs w =
       (awaited (report rt (length (requests w)) svcs),
        sent (take k (map url svcs @ [''http://localhost:4000/api/stats''])) (emit out w))"
    and "report rt (length (requests w)) svcs \<noteq> None \<longrightarrow> k = length svcs + 1"
    by (elim exE conjE)
  then have "collect rt svcs w =
     (Normal rep, sent (map url svcs @ [''http://localhost:4000/api/stats'']) (emit out w))"
    using assms by simp
  then show ?thesis by blast
qed

lemma collect_value:
  "collect rt svcs w = (Normal rep, w') \<Longrightarrow> report rt (length (requests w)) svcs = Some rep"
  using collect_report [of rt svcs w]
  by (cases "report rt (length (requests w)) svcs") auto

lemma collect_pending:
  "report rt (length (requests w)) svcs = None \<Longrightarrow> fst (collect rt svcs w) = Pending"
  using collect_report [of rt svcs w] by auto

lemma ex_out_Cons [simp]: "\<exists>out. emit (l # ls) w = emit (l # out) w"
  by blast

lemma summary_exit:
  "\<exists>out. summary results w =
     (Exit (if 0 < count_status ''error'' results then 1 else 0),
      emit ((colors_blue @ ''=== Summary ==='' @ colors_reset) # out) w)"
  by (simp add: summary_def js_defs console_log_emit Let_def)

lemma main_on_settled:
  assumes "report rt (length (requests w)) svcs = Some rep"
  shows "\<exists>out1 out2. main_on rt svcs w =
     (Exit (if 0 < count_status ''error'' rep then 1 else 0),
      sent (map url svcs @ [''http://localhost:4000/api/stats''])
        (emit (out1 @ (colors_blue @ ''=== Summary ==='' @ colors_reset) # out2) w))"
proof -
  obtain o1 where c: "collect rt svcs w =
     (Normal rep, sent (map url svcs @ [''http://localhost:4000/api/stats'']) (emit o1 w))"
    using collect_settled [OF assms] by blast
  let ?w1 = "sent (map url svcs @ [''http://localhost:4000/api/stats'']) (emit o1 w)"
  obtain o2 where s: "summary rep ?w1 =
     (Exit (if 0 < count_status ''error'' rep then 1 else 0),
      emit ((colors_blue @ ''=== Summary ==='' @ colors_reset) # o2) ?w1)"
    using summary_exit by blast
  have "main_on rt svcs w =
     (Exit (if 0 < count_status ''error'' rep then 1 else 0),
      sent (map url svcs @ [''http://localhost:4000/api/stats''])
        (emit (o1 @ (colors_blue @ ''=== Summary ==='' @ colors_reset) # o2) w))"
    unfolding main_on_def js_bind_def c using s by simp
  then show ?thesis by blast
qed

lemma main_on_pending:
  assumes "report rt (length (requests w)) svcs = None"
  shows "main_on rt svcs w = (Pending, snd (collect rt svcs w))"
proof -
  obtain c w' where cw: "collect rt svcs w = (c, w')" by (cases "collect rt svcs w")
  with collect_pending [OF assms] have "c = Pending" by simp
  with cw show ?thesis unfolding main_on_def js_bind_def by simp
qed

lemma run_on_code:
  "fst (run_on rt svcs) =
     (case report rt 0 svcs of
        Some rep \<Rightarrow> if 0 < count_status ''error'' rep then 1 else 0
      | None \<Rightarrow> 0)"
proof (cases "report rt 0 svcs")
  case None
  then have "report rt (length (requests initial_world)) svcs = None"
    by (simp add: initial_world_def)
  from main_on_pending [OF this] show ?thesis using None by (simp add: run_on_def)
next
  case (Some rep)
  then have "report rt (length (requests initial_world)) svcs = Some rep"
    by (simp add: initial_world_def)
  from main_on_settled [OF this] show ?thesis using Some by (auto simp add: run_on_def)
qed

lemma run_on_requests:
  "\<exists>k. requests (snd (run_on rt svcs)) = take k (map url svcs @ [''http://localhost:4000/api/stats''])
     \<and> 0 < k \<and> (report rt 0 svcs \<noteq> None \<longrightarrow> k = length svcs + 1)"
proof (cases "report rt 0 svcs")
  case None
  then have r: "report rt (length (requests initial_world)) svcs = None"
    by (simp add: initial_world_def)
  from collect_report [of rt svcs initial_world]
  obtain out k where c: "collect rt svcs initial_world =
       (awaited (report rt (length (requests initial_world)) svcs),
        sent (take k (map url svcs @ [''http://localhost:4000/api/stats''])) (emit out initial_world))"
    and k: "0 < k"
    by (elim exE conjE)
  have "requests (snd (run_on rt svcs)) = take k (map url svcs @ [''http://localhost:4000/api/stats''])"
    using main_on_pending [OF r] c by (simp add: run_on_def initial_world_def)
  then show ?thesis using k None by blast
next
  case (Some rep)
  then have "report rt (length (requests initial_world)) svcs = Some rep"
    by (simp add: initial_world_def)
  from main_on_settled [OF this]
  have "requests (snd (run_on rt svcs)) = map url svcs @ [''http://localhost:4000/api/stats'']"
    by (auto simp add: run_on_def initial_world_def)
  then have "requests (snd (run_on rt svcs))
      = take (length svcs + 1) (map url svcs @ [''http://localhost:4000/api/stats''])"
    by simp
  then show ?thesis by (intro exI [of _ "length svcs + 1"]) simp
qed

lemma evaluate_critical [simp]: "evaluate (svc\<lparr>critical := c\<rparr>) ev = evaluate svc ev"
  by (simp add: evaluate_def split: net_event.splits)

lemma evaluate_all_critical [simp]:
  "evaluate_all rt n (map (\<lambda>s. s\<lparr>critical := f s\<rparr>) svcs) = evaluate_all rt n svcs"
  by (induction svcs arbitrary: n) (simp_all split: option.splits)

lemma report_critical [simp]:
  "report rt n (map (\<lambda>s. s\<lparr>critical := f s\<rparr>) svcs) = report rt n svcs"
  by (simp add: report_def split: option.splits)

lemma evaluate_service: "evaluate svc ev = Some v \<Longrightarrow> verdict.service v = name svc"
  by (auto simp add: evaluate_def split: net_event.splits)

lemma evaluate_db_service: "evaluate_db ev = Some v \<Longrightarrow> verdict.service v = ''Database''"
  by (auto simp add: evaluate_db_def split: net_event.splits if_splits)

lemma evaluate_all_services:
  "evaluate_all rt n svcs = Some vs \<Longrightarrow> map verdict.service vs = map name svcs"
  by (induction svcs arbitrary: n vs) (auto split: option.splits dest: evaluate_service)

lemma evaluate_status:
  "evaluate svc ev = Some v \<Longrightarrow> verdict.status v \<in> {''healthy'', ''warning'', ''error''}"
  by (auto simp add: evaluate_def split: net_event.splits)

lemma evaluate_db_status:
  "evaluate_db ev = Some v \<Longrightarrow> verdict.status v \<in> {''healthy'', ''warning'', ''error''}"
  by (auto simp add: evaluate_db_def split: net_event.splits if_splits)

lemma evaluate_all_status:
  "evaluate_all rt n svcs = Some vs \<Longrightarrow> v \<in> set vs \<Longrightarrow>
     verdict.status v \<in> {''healthy'', ''warning'', ''error''}"
proof (induction svcs arbitrary: n vs)
  case Nil
  then show ?case by simp
next
  case (Cons svc rest)
  from Cons.prems(1) obtain v0 vs0 where e: "evaluate svc (net rt n (url svc)) = Some v0"
    "evaluate_all rt (Suc n) rest = Some vs0" "vs = v0 # vs0"
    by (auto split: option.splits)
  from Cons.prems(2) e(3) have "v = v0 \<or> v \<in> set vs0" by simp
  then show ?case using evaluate_status [OF e(1)] Cons.IH [OF e(2)] by blast
qed

lemma report_parts:
  "report rt n svcs = Some rep \<Longrightarrow>
     \<exists>vs d. rep = vs @ [d] \<and> evaluate_all rt n svcs = Some vs
       \<and> evaluate_db (net rt (n + length svcs) ''http://localhost:4000/api/stats'') = Some d"
  by (auto simp add: report_def split: option.splits)

lemma report_status:
  assumes "report rt n svcs = Some rep" and "v \<in> set rep"
  shows "verdict.status v \<in> {''healthy'', ''warning'', ''error''}"
proof -
  from report_parts [OF assms(1)] obtain vs d where p: "rep = vs @ [d]"
    "evaluate_all rt n svcs = Some vs"
    "evaluate_db (net rt (n + length svcs) ''http://localhost:4000/api/stats'') = Some d"
    by blast
  from assms(2) p(1) have "v \<in> set vs \<or> v = d" by auto
  then show ?thesis using evaluate_all_status [OF p(2)] evaluate_db_status [OF p(3)] by blast
qed

lemma counts_partition:
  "(\<And>v. v \<in> set rs \<Longrightarrow> verdict.status v \<in> {''healthy'', ''warning'', ''error''}) \<Longrightarrow>
   count_status ''healthy'' rs + count_status ''warning'' rs + count_status ''error'' rs = length rs"
  by (induction rs) (auto simp: count_status_def)

lemma evaluate_Some_iff: "(evaluate svc ev \<noteq> None) = (ev \<noteq> Aborted)"
  by (simp add: evaluate_def split: net_event.splits)

lemma evaluate_db_Some_iff: "(evaluate_db ev \<noteq> None) = (ev \<noteq> Aborted)"
  by (simp add: evaluate_db_def split: net_event.splits)

lemma all_settle_evaluate_all:
  "all_settle rt n svcs =
     (evaluate_all rt n svcs \<noteq> None
      \<and> net rt (n + length svcs) ''http://localhost:4000/api/stats'' \<noteq> Aborted)"
proof (induction svcs arbitrary: n)
  case Nil
  then show ?case by simp
next
  case (Cons svc rest)
  show ?case
    using Cons.IH [of "Suc n"] evaluate_Some_iff [of svc "net rt n (url svc)"]
    by (auto split: option.splits)
qed

lemma all_settle_report: "all_settle rt n svcs = (report rt n svcs \<noteq> None)"
  using evaluate_db_Some_iff [of "net rt (n + length svcs) ''http://localhost:4000/api/stats''"]
  by (auto simp add: all_settle_evaluate_all report_def split: option.splits)

lemma settled_report:
  assumes "all_settle rt n svcs"
  shows "\<exists>rep. report rt n svcs = Some rep \<and> length rep = length svcs + 1
           \<and> map verdict.service rep = map name svcs @ [''Database'']"
proof -
  from assms obtain rep where r: "report rt n svcs = Some rep"
    by (auto simp add: all_settle_report)
  from report_parts [OF r] obtain vs d where p: "rep = vs @ [d]"
    "evaluate_all rt n svcs = Some vs"
    "evaluate_db (net rt (n + length svcs) ''http://localhost:4000/api/stats'') = Some d"
    by (elim exE conjE)
  have "map verdict.service rep = map name svcs @ [''Database'']"
    using p(1) evaluate_all_services [OF p(2)] evaluate_db_service [OF p(3)] by simp
  moreover from this have "length rep = length svcs + 1"
    by (metis length_append_singleton length_map Suc_eq_plus1)
  ultimately show ?thesis using r by simp
qed

subsection \<open>Projections of the results, and the recorded runs evaluated\<close>

lemma checkService_world:
  "\<exists>out. snd (checkService rt svc w) = sent [url svc] (emit out w)"
  using checkService_evaluate [of rt svc w] by auto

lemma checkService_fst:
  "fst (checkService rt svc w) = awaited (evaluate svc (net rt (length (requests w)) (url svc)))"
  using checkService_evaluate [of rt svc w] by auto

lemma checkService_stderr: "stderr (snd (checkService rt svc w)) = stderr w"
  using checkService_world [of rt svc w] by auto

lemma checkService_requests: "requests (snd (checkService rt svc w)) = requests w @ [url svc]"
  using checkService_world [of rt svc w] by auto

lemma checkService_stdout_flag:
  "take (Suc (length (stdout w))) (stdout (snd (checkService rt (svc\<lparr>critical := c\<rparr>) w)))
     = take (Suc (length (stdout w))) (stdout (snd (checkService rt svc w)))
   \<and> drop (Suc (Suc (length (stdout w)))) (stdout (snd (checkService rt (svc\<lparr>critical := c\<rparr>) w)))
     = drop (Suc (Suc (length (stdout w)))) (stdout (snd (checkService rt svc w)))"
proof (cases "net rt (length (requests w)) (url svc)")
  case (Responded sc chunks hs)
  show ?thesis
  proof (cases "200 \<le> sc \<and> sc < 300")
    case True
    then have "200 \<le> sc" "sc < 300" by simp_all
    then show ?thesis
      using Responded by (simp add: checkService_healthy [where sc = sc and chunks = chunks and hs = hs])
  next
    case False
    then show ?thesis
      using Responded by (simp add: checkService_warning [where sc = sc and chunks = chunks and hs = hs])
  qed
next
  case TimedOut
  then show ?thesis
    by (simp add: checkService_timeout failure_lines_def)
next
  case (Failed err)
  then show ?thesis
    by (simp add: checkService_failed [where err = err] failure_lines_def)
next
  case Aborted
  then show ?thesis
    by (simp add: checkService_aborted)
qed

lemma checkDatabase_fst:
  "fst (checkDatabase rt w) =
     awaited (evaluate_db (net rt (length (requests w)) ''http://localhost:4000/api/stats''))"
  using checkDatabase_evaluate [of rt w] by auto

lemma awaited_Normal: "awaited r = Normal v \<Longrightarrow> r = Some v"
  by (cases r) simp_all

lemma net_mixed:
  "net mixed_rt n ''http://localhost:8000/health'' = Responded 200 [body_full] []"
  "net mixed_rt n ''http://localhost:4000/api/chat/health'' = Responded 503 [''Service Unavailable''] []"
  "net mixed_rt n ''http://localhost:3000'' = Failed refused"
  "net mixed_rt n ''http://localhost:4000/api/stats'' = Responded 200 [''OK''] []"
  by (simp_all add: mixed_rt_def scripted_def)

lemma net_slow:
  "net slow_rt n ''http://localhost:8000/health'' = TimedOut"
  "net slow_rt n ''http://localhost:4000/api/chat/health'' = Failed hang_up"
  "net slow_rt n ''http://localhost:3000'' = Failed refused"
  "net slow_rt n ''http://localhost:4000/api/stats'' = Failed refused"
  by (simp_all add: slow_rt_def scripted_def)

lemma net_down: "net down_rt n u = Failed refused"
  by (simp add: down_rt_def scripted_def)

lemma net_redirect:
  "net redirect_rt n ''http://localhost:3000'' = Responded 301 [] [(''location'', ''/login'')]"
  by (simp add: redirect_rt_def scripted_def)

lemma net_up:
  "net up_rt n ''http://localhost:8000/health'' = Responded 200 [body_full] []"
  "net up_rt n ''http://localhost:4000/api/chat/health'' = Responded 200 [''OK''] []"
  "net up_rt n ''http://localhost:3000'' = Responded 200 [''<html>'', ''</html>''] []"
  "net up_rt n ''http://localhost:4000/api/stats'' = Responded 200 [''OK''] []"
  by (simp_all add: up_rt_def scripted_def)

lemma net_zero:
  "net zero_rt n ''http://localhost:8000/health'' = Responded 200 [body_zero] []"
  by (simp add: zero_rt_def scripted_def)

lemma net_cut:
  "net cut_rt n ''http://localhost:8000/health'' = Aborted"
  by (simp add: cut_rt_def scripted_def)

lemma net_cut_second:
  "net cut_second_rt n ''http://localhost:8000/health'' = Responded 200 [body_full] []"
  "net cut_second_rt n ''http://localhost:4000/api/chat/health'' = Aborted"
  by (simp_all add: cut_second_rt_def scripted_def)

lemma report_mixed:
  "report mixed_rt 0 services =
     Some [\<lparr>service = ''Vanna AI Service'', status = ''healthy'', code = Some 200, error = None\<rparr>,
      \<lparr>service = ''API Backend'', status = ''warning'', code = Some 503, error = None\<rparr>,
      \<lparr>service = ''Web Frontend'', status = ''error'', code = None,
        error = Some ''connect ECONNREFUSED 127.0.0.1''\<rparr>,
      \<lparr>service = ''Database'', status = ''healthy'', code = None, error = None\<rparr>]"
  by (simp add: report_def services_def evaluate_def evaluate_db_def net_mixed refused_def)

lemma report_down:
  "report down_rt 0 services =
     Some [\<lparr>service = ''Vanna AI Service'', status = ''error'', code = None,
        error = Some ''connect ECONNREFUSED 127.0.0.1''\<rparr>,
      \<lparr>service = ''API Backend'', status = ''error'', code = None,
        error = Some ''connect ECONNREFUSED 127.0.0.1''\<rparr>,
      \<lparr>service = ''Web Frontend'', status = ''error'', code = None,
        error = Some ''connect ECONNREFUSED 127.0.0.1''\<rparr>,
      \<lparr>service = ''Database'', status = ''error'', code = None,
        error = Some ''connect ECONNREFUSED 127.0.0.1''\<rparr>]"
  by (simp add: report_def services_def evaluate_def evaluate_db_def net_down refused_def)

lemma all_settle_mixed: "all_settle mixed_rt 0 services"
  by (simp add: all_settle_report report_mixed)

lemma all_settle_down: "all_settle down_rt 0 services"
  by (simp add: all_settle_report report_down)

lemma Number_toString_200: "Number_toString 200 = ''200''"
  by (simp add: Number_toString_def digits.simps)

lemma displayed_metadata_Inl:
  "JSON_parse rt body = Inl e \<Longrightarrow> displayed_metadata rt body = []"
  by (simp add: displayed_metadata_def)

lemma scripted_builtins:
  "JSON_parse (scripted tbl) = recorded_parse"
  "JSON_stringify (scripted tbl) = recorded_stringify"
  "ToString (scripted tbl) = recorded_ToString"
  by (simp_all add: scripted_def)

lemma displayed_full:
  \<open>displayed_metadata (scripted tbl) body_full =
     [''  Status: ok'', ''  Services: {"db":true}'', ''  Version: 1.0'']\<close>
  by (simp add: displayed_metadata_def scripted_builtins recorded_parse_def field_text_def
      recorded_ToString_def recorded_stringify_def)

lemma displayed_zero: "displayed_metadata (scripted tbl) body_zero = []"
  by (simp add: displayed_metadata_def scripted_builtins recorded_parse_def field_text_def
      body_zero_def body_full_def)

lemma displayed_OK: "displayed_metadata (scripted tbl) ''OK'' = []"
  by (simp add: displayed_metadata_def scripted_builtins recorded_parse_def
      body_zero_def body_full_def)

section \<open>The claims\<close>

text \<open>
  C1. For every final Report the exit code is 1 if and only if the number of verdicts with
  status \<^verbatim>\<open>error\<close> is greater than 0, and 0 otherwise, however many verdicts have the
  status \<^verbatim>\<open>warning\<close>: for the summary of any list of verdicts, and for the process as a
  whole, whose Report is the value of \<open>collect\<close>. A run whose requests are all settled has a
  final Report.
\<close>

theorem exit_code_iff_errors:
  "(\<exists>w'. summary results w = (Exit (if 0 < count_status ''error'' results then 1 else 0), w'))
   \<and> (\<forall>rep w'. collect rt svcs initial_world = (Normal rep, w')
         \<longrightarrow> fst (run_on rt svcs) = (if 0 < count_status ''error'' rep then 1 else 0))
   \<and> (all_settle rt 0 svcs \<longrightarrow> (\<exists>rep w'. collect rt svcs initial_world = (Normal rep, w')))"
proof (intro conjI allI impI)
  show "\<exists>w'. summary results w = (Exit (if 0 < count_status ''error'' results then 1 else 0), w')"
    using summary_exit [of results w] by blast
next
  fix rep w'
  assume "collect rt svcs initial_world = (Normal rep, w')"
  from collect_value [OF this] have "report rt 0 svcs = Some rep"
    by (simp add: initial_world_def)
  then show "fst (run_on rt svcs) = (if 0 < count_status ''error'' rep then 1 else 0)"
    by (simp add: run_on_code)
next
  assume "all_settle rt 0 svcs"
  then obtain rep where "report rt (length (requests initial_world)) svcs = Some rep"
    by (auto simp add: all_settle_report initial_world_def)
  from collect_settled [OF this] show "\<exists>rep w'. collect rt svcs initial_world = (Normal rep, w')"
    by blast
qed

theorem exit_code_iff_errors_witness:
  "(\<exists>w'. summary
       [\<lparr>service = ''A'', status = ''healthy'', code = Some 200, error = None\<rparr>,
        \<lparr>service = ''B'', status = ''warning'', code = Some 503, error = None\<rparr>,
        \<lparr>service = ''C'', status = ''warning'', code = Some 404, error = None\<rparr>,
        \<lparr>service = ''Database'', status = ''healthy'', code = None, error = None\<rparr>]
       initial_world = (Exit 0, w'))
   \<and> all_settle mixed_rt 0 services
   \<and> (\<exists>rep w'. collect mixed_rt services initial_world = (Normal rep, w')
         \<and> count_status ''error'' rep = 1)
   \<and> fst (run_on mixed_rt services) = 1"
proof -
  let ?rs = "[\<lparr>service = ''A'', status = ''healthy'', code = Some 200, error = None\<rparr>,
        \<lparr>service = ''B'', status = ''warning'', code = Some 503, error = None\<rparr>,
        \<lparr>service = ''C'', status = ''warning'', code = Some 404, error = None\<rparr>,
        \<lparr>service = ''Database'', status = ''healthy'', code = None, error = None\<rparr>]"
  note t = exit_code_iff_errors [of ?rs initial_world mixed_rt services]
  have e: "count_status ''error'' ?rs = 0"
    by (simp add: count_status_def)
  from t e have s: "\<exists>w'. summary ?rs initial_world = (Exit 0, w')" by simp
  note t2 = t [THEN conjunct2, THEN conjunct1]
  note t3 = t [THEN conjunct2, THEN conjunct2]
  from t3 all_settle_mixed obtain rep w' where
    c: "collect mixed_rt services initial_world = (Normal rep, w')"
    by auto
  from t2 c have x: "fst (run_on mixed_rt services) = (if 0 < count_status ''error'' rep then 1 else 0)"
    by auto
  have "report mixed_rt 0 services = Some rep"
    using collect_value [OF c] by (simp add: initial_world_def)
  then have n: "count_status ''error'' rep = 1"
    by (auto simp add: report_mixed count_status_def)
  with x have "fst (run_on mixed_rt services) = 1" by simp
  with s all_settle_mixed c n show ?thesis by auto
qed

text \<open>
  C2. For every target and probe outcome, the status of the verdict \<^verbatim>\<open>checkService\<close>
  returns is \<^verbatim>\<open>healthy\<close> when the outcome is a response with a status code in [200, 300),
  \<^verbatim>\<open>warning\<close> when it is a response with any other status code, and \<^verbatim>\<open>error\<close> when it
  is a failure (the timeout or an error of the client). A response that is cut off after
  its headers is no outcome: \<^verbatim>\<open>checkService\<close> does not return.
\<close>

theorem checkService_status:
  "(\<forall>sc chunks hs. net rt (length (requests w)) (url svc) = Responded sc chunks hs \<longrightarrow>
      (\<exists>v w'. checkService rt svc w = (Normal v, w')
         \<and> verdict.status v = (if 200 \<le> sc \<and> sc < 300 then ''healthy'' else ''warning'')))
   \<and> (net rt (length (requests w)) (url svc) = TimedOut \<longrightarrow>
      (\<exists>v w'. checkService rt svc w = (Normal v, w') \<and> verdict.status v = ''error''))
   \<and> (\<forall>err. net rt (length (requests w)) (url svc) = Failed err \<longrightarrow>
      (\<exists>v w'. checkService rt svc w = (Normal v, w') \<and> verdict.status v = ''error''))
   \<and> (net rt (length (requests w)) (url svc) = Aborted \<longrightarrow>
      (\<exists>w'. checkService rt svc w = (Pending, w')))"
proof -
  obtain out where c: "checkService rt svc w =
     (awaited (evaluate svc (net rt (length (requests w)) (url svc))), sent [url svc] (emit out w))"
    using checkService_evaluate by blast
  show ?thesis unfolding c by (simp add: evaluate_def)
qed

theorem checkService_status_witness:
  "net mixed_rt (length (requests initial_world)) (url (services ! 0)) = Responded 200 [body_full] []
   \<and> (\<exists>v w'. checkService mixed_rt (services ! 0) initial_world = (Normal v, w') \<and> verdict.status v = ''healthy'')
   \<and> net mixed_rt (length (requests initial_world)) (url (services ! 1))
       = Responded 503 [''Service Unavailable''] []
   \<and> (\<exists>v w'. checkService mixed_rt (services ! 1) initial_world = (Normal v, w') \<and> verdict.status v = ''warning'')
   \<and> net mixed_rt (length (requests initial_world)) (url (services ! 2)) = Failed refused
   \<and> (\<exists>v w'. checkService mixed_rt (services ! 2) initial_world = (Normal v, w') \<and> verdict.status v = ''error'')
   \<and> net slow_rt (length (requests initial_world)) (url (services ! 0)) = TimedOut
   \<and> (\<exists>v w'. checkService slow_rt (services ! 0) initial_world = (Normal v, w') \<and> verdict.status v = ''error'')
   \<and> net cut_rt (length (requests initial_world)) (url (services ! 0)) = Aborted
   \<and> (\<exists>w'. checkService cut_rt (services ! 0) initial_world = (Pending, w'))"
proof -
  have n: "net mixed_rt (length (requests initial_world)) (url (services ! 0)) = Responded 200 [body_full] []"
    "net mixed_rt (length (requests initial_world)) (url (services ! 1))
       = Responded 503 [''Service Unavailable''] []"
    "net mixed_rt (length (requests initial_world)) (url (services ! 2)) = Failed refused"
    "net slow_rt (length (requests initial_world)) (url (services ! 0)) = TimedOut"
    "net cut_rt (length (requests initial_world)) (url (services ! 0)) = Aborted"
    by (simp_all add: services_def net_mixed net_slow net_cut)
  from checkService_status [of mixed_rt initial_world "services ! 0"]
    checkService_status [of mixed_rt initial_world "services ! 1"]
    checkService_status [of mixed_rt initial_world "services ! 2"]
    checkService_status [of slow_rt initial_world "services ! 0"]
    checkService_status [of cut_rt initial_world "services ! 0"] n
  show ?thesis by simp
qed

text \<open>
  C3. Whatever the probe does, \<^verbatim>\<open>checkService\<close> should return a verdict, so that the run
  goes on to the remaining targets, the summary and the exit code. It does not when the
  AI service closes the connection after the headers of its response: \<^verbatim>\<open>makeRequest\<close>
  settles its promise on the end of the response, on the timeout and on the error of the
  request only, so \<^verbatim>\<open>checkService\<close> never returns, no other target is requested, no
  summary is printed, and the process ends with the exit code 0 after its first two lines.
\<close>

theorem aborted_probe_never_returns:
  "net cut_rt (length (requests initial_world)) (url (services ! 0)) = Aborted
   \<and> checkService cut_rt (services ! 0) initial_world =
       (Pending,
        \<lparr>stdout = [colors_blue @ ''Checking Vanna AI Service...'' @ colors_reset],
         stderr = [], requests = [''http://localhost:8000/health'']\<rparr>)
   \<and> run cut_rt =
       (0,
        \<lparr>stdout = [colors_blue @ ''=== Analytics Dashboard Health Check ==='' @ colors_reset @ [CHR 0x0A],
                   colors_blue @ ''Checking Vanna AI Service...'' @ colors_reset],
         stderr = [], requests = [''http://localhost:8000/health'']\<rparr>)"
proof (intro conjI)
  show n: "net cut_rt (length (requests initial_world)) (url (services ! 0)) = Aborted"
    by (simp add: services_def net_cut)
  from checkService_aborted [OF n]
  show "checkService cut_rt (services ! 0) initial_world =
       (Pending,
        \<lparr>stdout = [colors_blue @ ''Checking Vanna AI Service...'' @ colors_reset],
         stderr = [], requests = [''http://localhost:8000/health'']\<rparr>)"
    by (simp add: services_def initial_world_def emit_def sent_def)
  let ?w0 = "emit [colors_blue @ ''=== Analytics Dashboard Health Check ==='' @ colors_reset @ [CHR 0x0A]]
               initial_world"
  have "net cut_rt (length (requests ?w0)) (url (services ! 0)) = Aborted"
    by (simp add: services_def net_cut)
  from checkService_aborted [OF this]
  have c: "checkService cut_rt (services ! 0) ?w0 =
       (Pending, sent [url (services ! 0)]
          (emit [colors_blue @ ''Checking '' @ name (services ! 0) @ ''...'' @ colors_reset] ?w0))" .
  have "check_all cut_rt services [] ?w0 =
       (Pending, sent [url (services ! 0)]
          (emit [colors_blue @ ''Checking '' @ name (services ! 0) @ ''...'' @ colors_reset] ?w0))"
    using c by (simp add: services_def js_defs)
  then have "main_on cut_rt services initial_world =
       (Pending, sent [url (services ! 0)]
          (emit [colors_blue @ ''Checking '' @ name (services ! 0) @ ''...'' @ colors_reset] ?w0))"
    by (simp add: main_on_def collect_def js_defs console_log_emit)
  then show "run cut_rt =
       (0,
        \<lparr>stdout = [colors_blue @ ''=== Analytics Dashboard Health Check ==='' @ colors_reset @ [CHR 0x0A],
                   colors_blue @ ''Checking Vanna AI Service...'' @ colors_reset],
         stderr = [], requests = [''http://localhost:8000/health'']\<rparr>)"
    by (simp add: run_def run_on_def) (simp add: services_def initial_world_def emit_def sent_def)
qed

text \<open>
  C4. For every target and probe outcome, changing the target's \<^verbatim>\<open>critical\<close> flag changes
  neither the verdict \<^verbatim>\<open>checkService\<close> returns (so not its status) nor the exit code of
  the run. The flag reaches the output only: the requests and the error stream are the
  same, and so is every printed line but the second one of the check, the line whose
  colour and symbol the flag selects.
\<close>

theorem critical_flag_cosmetic:
  "fst (checkService rt (svc\<lparr>critical := c\<rparr>) w) = fst (checkService rt svc w)
   \<and> requests (snd (checkService rt (svc\<lparr>critical := c\<rparr>) w)) = requests (snd (checkService rt svc w))
   \<and> stderr (snd (checkService rt (svc\<lparr>critical := c\<rparr>) w)) = stderr (snd (checkService rt svc w))
   \<and> take (Suc (length (stdout w))) (stdout (snd (checkService rt (svc\<lparr>critical := c\<rparr>) w)))
       = take (Suc (length (stdout w))) (stdout (snd (checkService rt svc w)))
   \<and> drop (Suc (Suc (length (stdout w)))) (stdout (snd (checkService rt (svc\<lparr>critical := c\<rparr>) w)))
       = drop (Suc (Suc (length (stdout w)))) (stdout (snd (checkService rt svc w)))
   \<and> fst (run_on rt (map (\<lambda>s. s\<lparr>critical := f s\<rparr>) svcs)) = fst (run_on rt svcs)"
proof (intro conjI)
  show "fst (checkService rt (svc\<lparr>critical := c\<rparr>) w) = fst (checkService rt svc w)"
    by (simp add: checkService_fst)
next
  obtain o1 where a: "snd (checkService rt svc w) = sent [url svc] (emit o1 w)"
    using checkService_world by blast
  obtain o2 where b: "snd (checkService rt (svc\<lparr>critical := c\<rparr>) w)
      = sent [url (svc\<lparr>critical := c\<rparr>)] (emit o2 w)"
    using checkService_world by blast
  show "requests (snd (checkService rt (svc\<lparr>critical := c\<rparr>) w)) = requests (snd (checkService rt svc w))"
    by (simp add: a b)
  show "stderr (snd (checkService rt (svc\<lparr>critical := c\<rparr>) w)) = stderr (snd (checkService rt svc w))"
    by (simp add: a b)
next
  show "take (Suc (length (stdout w))) (stdout (snd (checkService rt (svc\<lparr>critical := c\<rparr>) w)))
       = take (Suc (length (stdout w))) (stdout (snd (checkService rt svc w)))"
    using checkService_stdout_flag [where w = w and rt = rt and svc = svc and c = c] by simp
  show "drop (Suc (Suc (length (stdout w)))) (stdout (snd (checkService rt (svc\<lparr>critical := c\<rparr>) w)))
       = drop (Suc (Suc (length (stdout w)))) (stdout (snd (checkService rt svc w)))"
    using checkService_stdout_flag [where w = w and rt = rt and svc = svc and c = c] by simp
next
  show "fst (run_on rt (map (\<lambda>s. s\<lparr>critical := f s\<rparr>) svcs)) = fst (run_on rt svcs)"
    by (simp add: run_on_code)
qed

theorem critical_flag_cosmetic_witness:
  "fst (checkService down_rt ((services ! 2)\<lparr>critical := True\<rparr>) initial_world)
     = Normal \<lparr>service = ''Web Frontend'', status = ''error'', code = None,
               error = Some ''connect ECONNREFUSED 127.0.0.1''\<rparr>
   \<and> fst (checkService down_rt (services ! 2) initial_world)
     = Normal \<lparr>service = ''Web Frontend'', status = ''error'', code = None,
               error = Some ''connect ECONNREFUSED 127.0.0.1''\<rparr>
   \<and> fst (run_on down_rt (map (\<lambda>s. s\<lparr>critical := \<not> critical s\<rparr>) services)) = 1
   \<and> fst (run_on down_rt services) = 1
   \<and> stdout (snd (checkService down_rt ((services ! 2)\<lparr>critical := True\<rparr>) initial_world)) ! 1
     \<noteq> stdout (snd (checkService down_rt (services ! 2) initial_world)) ! 1"
proof -
  note t = critical_flag_cosmetic [where rt = down_rt and svc = "services ! 2" and c = True
      and w = initial_world and f = "\<lambda>s. \<not> critical s" and svcs = services]
  have v: "fst (checkService down_rt (services ! 2) initial_world)
     = Normal \<lparr>service = ''Web Frontend'', status = ''error'', code = None,
               error = Some ''connect ECONNREFUSED 127.0.0.1''\<rparr>"
    by (simp add: checkService_fst net_down evaluate_def services_def refused_def)
  have x: "fst (run_on down_rt services) = 1"
    by (simp add: run_on_code report_down count_status_def)
  have l: "stdout (snd (checkService down_rt ((services ! 2)\<lparr>critical := True\<rparr>) initial_world)) ! 1
     \<noteq> stdout (snd (checkService down_rt (services ! 2) initial_world)) ! 1"
    by (simp add: checkService_failed [where err = refused] net_down failure_lines_def services_def
        initial_world_def colors_red_def colors_yellow_def)
  from t v x l show ?thesis by simp
qed

text \<open>
  C5. Every run should produce one verdict for each registered target, in the order of
  the registry, and the verdict of the database check last. A run whose requests are all
  settled does. A run in which the backend closes the connection after the headers of its
  response does not: the loop has the verdict of the AI service when \<^verbatim>\<open>checkService\<close>
  stops returning, so there is no Report, the frontend and the database check are never
  requested, and the process ends with the exit code 0.
\<close>

theorem aborted_run_has_no_report:
  \<open>net cut_second_rt 1 (url (services ! 1)) = Aborted
   \<and> collect cut_second_rt services initial_world =
       (Pending,
        \<lparr>stdout = [colors_blue @ ''=== Analytics Dashboard Health Check ==='' @ colors_reset @ [CHR 0x0A],
                   colors_blue @ ''Checking Vanna AI Service...'' @ colors_reset,
                   colors_green @ sym_ok @ '' Vanna AI Service is healthy (200)'' @ colors_reset,
                   ''  Status: ok'', ''  Services: {"db":true}'', ''  Version: 1.0'',
                   [],
                   colors_blue @ ''Checking API Backend...'' @ colors_reset],
         stderr = [],
         requests = [''http://localhost:8000/health'', ''http://localhost:4000/api/chat/health'']\<rparr>)
   \<and> fst (run cut_second_rt) = 0\<close>
proof (intro conjI)
  show "net cut_second_rt 1 (url (services ! 1)) = Aborted"
    by (simp add: services_def net_cut_second)
  let ?s0 = "\<lparr>name = ''Vanna AI Service'', url = ''http://localhost:8000/health'', critical = True\<rparr>"
  let ?s1 = "\<lparr>name = ''API Backend'', url = ''http://localhost:4000/api/chat/health'', critical = True\<rparr>"
  let ?w0 = "emit [colors_blue @ ''=== Analytics Dashboard Health Check ==='' @ colors_reset @ [CHR 0x0A]]
               initial_world"
  have "net cut_second_rt (length (requests ?w0)) (url ?s0) = Responded 200 [body_full] []"
    by (simp add: net_cut_second)
  from checkService_healthy [OF this]
  have c1: "checkService cut_second_rt ?s0 ?w0 =
     (Normal \<lparr>service = name ?s0, status = ''healthy'', code = Some 200, error = None\<rparr>,
      sent [url ?s0]
        (emit ([colors_blue @ ''Checking '' @ name ?s0 @ ''...'' @ colors_reset,
                colors_green @ sym_ok @ '' '' @ name ?s0 @ '' is healthy (''
                  @ Number_toString 200 @ '')'' @ colors_reset]
               @ displayed_metadata cut_second_rt (concat [body_full])) ?w0))"
    by simp
  let ?w1 = "emit [[]] (sent [url ?s0]
        (emit ([colors_blue @ ''Checking '' @ name ?s0 @ ''...'' @ colors_reset,
                colors_green @ sym_ok @ '' '' @ name ?s0 @ '' is healthy (''
                  @ Number_toString 200 @ '')'' @ colors_reset]
               @ displayed_metadata cut_second_rt (concat [body_full])) ?w0))"
  have "net cut_second_rt (length (requests ?w1)) (url ?s1) = Aborted"
    by (simp add: net_cut_second)
  from checkService_aborted [OF this]
  have c2: "checkService cut_second_rt ?s1 ?w1 =
     (Pending, sent [url ?s1]
        (emit [colors_blue @ ''Checking '' @ name ?s1 @ ''...'' @ colors_reset] ?w1))" .
  have "check_all cut_second_rt services [] ?w0 =
     (Pending, sent [url ?s1]
        (emit [colors_blue @ ''Checking '' @ name ?s1 @ ''...'' @ colors_reset] ?w1))"
    using c1 c2 by (simp add: services_def js_defs console_log_emit)
  then have c: "collect cut_second_rt services initial_world =
     (Pending, sent [url ?s1]
        (emit [colors_blue @ ''Checking '' @ name ?s1 @ ''...'' @ colors_reset] ?w1))"
    by (simp add: collect_def js_defs console_log_emit)
  then show \<open>collect cut_second_rt services initial_world =
       (Pending,
        \<lparr>stdout = [colors_blue @ ''=== Analytics Dashboard Health Check ==='' @ colors_reset @ [CHR 0x0A],
                   colors_blue @ ''Checking Vanna AI Service...'' @ colors_reset,
                   colors_green @ sym_ok @ '' Vanna AI Service is healthy (200)'' @ colors_reset,
                   ''  Status: ok'', ''  Services: {"db":true}'', ''  Version: 1.0'',
                   [],
                   colors_blue @ ''Checking API Backend...'' @ colors_reset],
         stderr = [],
         requests = [''http://localhost:8000/health'', ''http://localhost:4000/api/chat/health'']\<rparr>)\<close>
    by (simp add: cut_second_rt_def displayed_full Number_toString_200)
       (simp add: initial_world_def emit_def sent_def)
  have "report cut_second_rt 0 services = None"
    by (simp add: report_def services_def evaluate_def net_cut_second)
  then show "fst (run cut_second_rt) = 0"
    by (simp add: run_def run_on_code)
qed

text \<open>
  C6, as amended. The registry holds, in this order, the AI/query service (\<^verbatim>\<open>Vanna AI Service\<close>,
  port 8000, critical), the primary backend API (\<^verbatim>\<open>API Backend\<close>, port 4000, critical) and
  the user-facing frontend (\<^verbatim>\<open>Web Frontend\<close>, port 3000, not critical). Every run requests
  them in this order and requests the database proxy check after all three: the requests
  of a run are an initial part of this list of four, and all of it when every request is
  settled.
\<close>

theorem registry_order:
  "map (\<lambda>s. (name s, url s, critical s)) services =
     [(''Vanna AI Service'', ''http://localhost:8000/health'', True),
      (''API Backend'', ''http://localhost:4000/api/chat/health'', True),
      (''Web Frontend'', ''http://localhost:3000'', False)]
   \<and> (\<exists>k. 0 < k \<and> requests (snd (run rt)) =
          take k [''http://localhost:8000/health'', ''http://localhost:4000/api/chat/health'',
                  ''http://localhost:3000'', ''http://localhost:4000/api/stats''])
   \<and> (all_settle rt 0 services \<longrightarrow> requests (snd (run rt)) =
          [''http://localhost:8000/health'', ''http://localhost:4000/api/chat/health'',
           ''http://localhost:3000'', ''http://localhost:4000/api/stats''])"
proof -
  have u: "map url services @ [''http://localhost:4000/api/stats''] =
          [''http://localhost:8000/health'', ''http://localhost:4000/api/chat/health'',
           ''http://localhost:3000'', ''http://localhost:4000/api/stats'']"
    by (simp add: services_def)
  from run_on_requests [of rt services]
  obtain k where k: "requests (snd (run rt)) = take k (map url services @ [''http://localhost:4000/api/stats''])"
    "0 < k" "report rt 0 services \<noteq> None \<longrightarrow> k = length services + 1"
    unfolding run_def by (elim exE conjE)
  have "all_settle rt 0 services \<longrightarrow> requests (snd (run rt)) =
          map url services @ [''http://localhost:4000/api/stats'']"
    using k(1,3) by (simp add: all_settle_report)
  moreover have "\<exists>k. 0 < k \<and> requests (snd (run rt)) =
          take k (map url services @ [''http://localhost:4000/api/stats''])"
    using k(1,2) by (intro exI [of _ k]) simp
  moreover have "map (\<lambda>s. (name s, url s, critical s)) services =
     [(''Vanna AI Service'', ''http://localhost:8000/health'', True),
      (''API Backend'', ''http://localhost:4000/api/chat/health'', True),
      (''Web Frontend'', ''http://localhost:3000'', False)]"
    by (simp add: services_def)
  ultimately show ?thesis unfolding u by (intro conjI)
qed

theorem registry_order_witness:
  "all_settle mixed_rt 0 services
   \<and> requests (snd (run mixed_rt)) =
     [''http://localhost:8000/health'', ''http://localhost:4000/api/chat/health'',
      ''http://localhost:3000'', ''http://localhost:4000/api/stats'']"
  using registry_order [of mixed_rt] all_settle_mixed by simp

text \<open>
  C6 as stated puts the primary backend API first and the AI/query backend second. The
  first entry of the registry, and the first request of a run, is the AI service.
\<close>

theorem registry_order_counterexample:
  "name (services ! 0) = ''Vanna AI Service'' \<and> name (services ! 1) = ''API Backend''
   \<and> map name services \<noteq> [''API Backend'', ''Vanna AI Service'', ''Web Frontend'']
   \<and> requests (snd (run down_rt)) ! 0 = ''http://localhost:8000/health''
   \<and> requests (snd (run down_rt)) ! 0 \<noteq> ''http://localhost:4000/api/chat/health''"
proof -
  from run_on_requests [of down_rt services]
  obtain k where k: "requests (snd (run down_rt)) = take k (map url services @ [''http://localhost:4000/api/stats''])"
    "0 < k"
    unfolding run_def by (elim exE conjE)
  from k(2) obtain j where "k = Suc j" by (cases k) simp_all
  with k(1) have "requests (snd (run down_rt)) ! 0 = ''http://localhost:8000/health''"
    by (simp add: services_def)
  then show ?thesis by (simp add: services_def)
qed

text \<open>
  C7, as amended. For the frontend target, a response with a 2xx status code yields a
  \<^verbatim>\<open>healthy\<close> verdict and a redirect (a 3xx status code) yields a \<^verbatim>\<open>warning\<close> verdict, as
  for every other target.
\<close>

theorem frontend_redirect_is_warning:
  assumes "net rt (length (requests w)) (url (services ! 2)) = Responded sc chunks hs"
  shows "(200 \<le> sc \<and> sc < 300 \<longrightarrow>
            fst (checkService rt (services ! 2) w)
              = Normal \<lparr>service = ''Web Frontend'', status = ''healthy'', code = Some sc, error = None\<rparr>)
       \<and> (300 \<le> sc \<and> sc < 400 \<longrightarrow>
            fst (checkService rt (services ! 2) w)
              = Normal \<lparr>service = ''Web Frontend'', status = ''warning'', code = Some sc, error = None\<rparr>)"
  using assms by (simp add: checkService_fst evaluate_def) (simp add: services_def)

theorem frontend_redirect_is_warning_witness:
  "net redirect_rt (length (requests initial_world)) (url (services ! 2))
      = Responded 301 [] [(''location'', ''/login'')]
   \<and> 300 \<le> (301::int) \<and> (301::int) < 400
   \<and> fst (checkService redirect_rt (services ! 2) initial_world)
      = Normal \<lparr>service = ''Web Frontend'', status = ''warning'', code = Some 301, error = None\<rparr>
   \<and> net up_rt (length (requests initial_world)) (url (services ! 2))
      = Responded 200 [''<html>'', ''</html>''] []
   \<and> 200 \<le> (200::int) \<and> (200::int) < 300
   \<and> fst (checkService up_rt (services ! 2) initial_world)
      = Normal \<lparr>service = ''Web Frontend'', status = ''healthy'', code = Some 200, error = None\<rparr>"
proof -
  have n: "net redirect_rt (length (requests initial_world)) (url (services ! 2))
      = Responded 301 [] [(''location'', ''/login'')]"
    by (simp add: services_def net_redirect)
  have m: "net up_rt (length (requests initial_world)) (url (services ! 2))
      = Responded 200 [''<html>'', ''</html>''] []"
    by (simp add: services_def net_up)
  from frontend_redirect_is_warning [OF n] frontend_redirect_is_warning [OF m] n m
  show ?thesis by simp
qed

text \<open>
  C7 as stated makes a redirect healthy. A frontend that answers 301 gets the verdict
  \<^verbatim>\<open>warning\<close>.
\<close>

theorem frontend_redirect_counterexample:
  "net redirect_rt (length (requests initial_world)) (url (services ! 2))
      = Responded 301 [] [(''location'', ''/login'')]
   \<and> fst (checkService redirect_rt (services ! 2) initial_world)
     = Normal \<lparr>service = ''Web Frontend'', status = ''warning'', code = Some 301, error = None\<rparr>
   \<and> verdict.status \<lparr>service = ''Web Frontend'', status = ''warning'', code = Some 301, error = None\<rparr>
     \<noteq> ''healthy''"
  by (simp add: checkService_fst evaluate_def services_def net_redirect)

text \<open>
  C8. In the \<^verbatim>\<open>catch\<close> block \<^verbatim>\<open>checkService\<close> prints its two fixed lines and then exactly
  the suggestion of the table: a refused connection (the error code \<^verbatim>\<open>ECONNREFUSED\<close>) gets
  "Make sure the service is running", a timeout (the rejection \<^verbatim>\<open>makeRequest\<close> makes on the
  timeout event, and any other error whose message holds \<^verbatim>\<open>timeout\<close>) gets "Service may be
  slow to respond or overloaded", and every other failure gets no suggestion.
\<close>

theorem failure_suggestions:
  "(net rt (length (requests w)) (url svc) = Failed err \<longrightarrow>
      stdout (snd (checkService rt svc w)) =
        stdout w @ [colors_blue @ ''Checking '' @ name svc @ ''...'' @ colors_reset]
        @ failure_lines svc err
        @ (if js_error.code err = Some ''ECONNREFUSED'' then
             [''  Suggestion: Make sure '' @ name svc @ '' is running'']
           else if str_includes (message err) ''timeout'' then
             [''  Suggestion: Service may be slow to respond or overloaded'']
           else []))
   \<and> (net rt (length (requests w)) (url svc) = TimedOut \<longrightarrow>
      stdout (snd (checkService rt svc w)) =
        stdout w @ [colors_blue @ ''Checking '' @ name svc @ ''...'' @ colors_reset]
        @ failure_lines svc \<lparr>js_error.code = None, message = ''Request timeout''\<rparr>
        @ [''  Suggestion: Service may be slow to respond or overloaded''])"
  by (simp add: checkService_failed checkService_timeout)

theorem failure_suggestions_witness:
  "net slow_rt (length (requests initial_world)) (url (services ! 0)) = TimedOut
   \<and> drop 3 (stdout (snd (checkService slow_rt (services ! 0) initial_world)))
       = [''  Suggestion: Service may be slow to respond or overloaded'']
   \<and> net slow_rt (length (requests initial_world)) (url (services ! 1)) = Failed hang_up
   \<and> drop 3 (stdout (snd (checkService slow_rt (services ! 1) initial_world))) = []
   \<and> net slow_rt (length (requests initial_world)) (url (services ! 2)) = Failed refused
   \<and> drop 3 (stdout (snd (checkService slow_rt (services ! 2) initial_world)))
       = [''  Suggestion: Make sure Web Frontend is running'']"
proof -
  have a: "net slow_rt (length (requests initial_world)) (url (services ! 0)) = TimedOut"
    and b: "net slow_rt (length (requests initial_world)) (url (services ! 1)) = Failed hang_up"
    and c: "net slow_rt (length (requests initial_world)) (url (services ! 2)) = Failed refused"
    by (simp_all add: services_def net_slow)
  from failure_suggestions [of slow_rt initial_world "services ! 0" hang_up]
    failure_suggestions [of slow_rt initial_world "services ! 1" hang_up]
    failure_suggestions [of slow_rt initial_world "services ! 2" refused] a b c
  show ?thesis
    by (simp add: failure_lines_def initial_world_def hang_up_def refused_def) (simp add: services_def)
qed

text \<open>
  C9, as amended. For every successful (2xx) outcome the verdict is \<^verbatim>\<open>healthy\<close> whatever
  the body is, and nothing reaches the error stream. When the body parses as a JSON
  object, each of the fields status, services and version that holds a truthy value (not
  absent, \<^verbatim>\<open>null\<close>, \<^verbatim>\<open>false\<close>, \<^verbatim>\<open>0\<close> or \<^verbatim>\<open>""\<close>) is printed, in this order, up to the first
  value whose conversion to a string throws. A body that fails to parse as JSON prints no
  metadata and is silently ignored: it is never surfaced as a warning or an error.
\<close>

theorem healthy_whatever_the_body:
  assumes "net rt (length (requests w)) (url svc) = Responded sc chunks hs"
    and "200 \<le> sc" and "sc < 300"
  shows "fst (checkService rt svc w)
           = Normal \<lparr>service = name svc, status = ''healthy'', code = Some sc, error = None\<rparr>
       \<and> stderr (snd (checkService rt svc w)) = stderr w
       \<and> stdout (snd (checkService rt svc w)) =
           stdout w @ [colors_blue @ ''Checking '' @ name svc @ ''...'' @ colors_reset,
                       colors_green @ sym_ok @ '' '' @ name svc @ '' is healthy (''
                         @ Number_toString sc @ '')'' @ colors_reset]
           @ displayed_metadata rt (concat chunks)
       \<and> (\<forall>e. JSON_parse rt (concat chunks) = Inl e \<longrightarrow>
            stdout (snd (checkService rt svc w)) =
              stdout w @ [colors_blue @ ''Checking '' @ name svc @ ''...'' @ colors_reset,
                          colors_green @ sym_ok @ '' '' @ name svc @ '' is healthy (''
                            @ Number_toString sc @ '')'' @ colors_reset])"
  using assms by (simp add: checkService_healthy displayed_metadata_Inl)

theorem healthy_whatever_the_body_witness:
  \<open>net up_rt (length (requests initial_world)) (url (services ! 0)) = Responded 200 [body_full] []
   \<and> (200::int) \<le> 200 \<and> (200::int) < 300
   \<and> fst (checkService up_rt (services ! 0) initial_world)
       = Normal \<lparr>service = ''Vanna AI Service'', status = ''healthy'', code = Some 200, error = None\<rparr>
   \<and> drop 2 (stdout (snd (checkService up_rt (services ! 0) initial_world)))
       = [''  Status: ok'', ''  Services: {"db":true}'', ''  Version: 1.0'']
   \<and> net up_rt (length (requests initial_world)) (url (services ! 1)) = Responded 200 [''OK''] []
   \<and> JSON_parse up_rt (concat [''OK'']) = Inl \<lparr>js_error.code = None, message = ''Unexpected token''\<rparr>
   \<and> fst (checkService up_rt (services ! 1) initial_world)
       = Normal \<lparr>service = ''API Backend'', status = ''healthy'', code = Some 200, error = None\<rparr>
   \<and> drop 2 (stdout (snd (checkService up_rt (services ! 1) initial_world))) = []
   \<and> stderr (snd (checkService up_rt (services ! 1) initial_world)) = []\<close>
proof -
  have a: "net up_rt (length (requests initial_world)) (url (services ! 0)) = Responded 200 [body_full] []"
    and b: "net up_rt (length (requests initial_world)) (url (services ! 1)) = Responded 200 [''OK''] []"
    by (simp_all add: services_def net_up)
  have p: "JSON_parse up_rt (concat [''OK'']) = Inl \<lparr>js_error.code = None, message = ''Unexpected token''\<rparr>"
    by (simp add: up_rt_def scripted_builtins recorded_parse_def body_full_def body_zero_def)
  from healthy_whatever_the_body [OF a] healthy_whatever_the_body [OF b] a b p
  show ?thesis
    by (simp add: up_rt_def displayed_full displayed_OK initial_world_def) (simp add: services_def)
qed

text \<open>
  C9 as stated has every field of a body that parses extracted for display. The body
  \<^verbatim>\<open>{"version":0}\<close> parses as JSON and holds the field version, and the check prints its two
  lines and no metadata.
\<close>

theorem falsy_field_counterexample:
  "net zero_rt (length (requests initial_world)) (url (services ! 0)) = Responded 200 [body_zero] []
   \<and> JSON_parse zero_rt (concat [body_zero]) = Inr (JObject [(''version'', JNumber (Finite 0))])
   \<and> map_of [(''version'', JNumber (Finite 0))] ''version'' = Some (JNumber (Finite 0))
   \<and> stdout (snd (checkService zero_rt (services ! 0) initial_world)) =
        [colors_blue @ ''Checking Vanna AI Service...'' @ colors_reset,
         colors_green @ sym_ok @ '' Vanna AI Service is healthy (200)'' @ colors_reset]"
proof -
  have a: "net zero_rt (length (requests initial_world)) (url (services ! 0)) = Responded 200 [body_zero] []"
    by (simp add: services_def net_zero)
  have p: "JSON_parse zero_rt (concat [body_zero]) = Inr (JObject [(''version'', JNumber (Finite 0))])"
    by (simp add: zero_rt_def scripted_builtins recorded_parse_def body_full_def body_zero_def)
  have "stdout (snd (checkService zero_rt (services ! 0) initial_world)) =
        [colors_blue @ ''Checking Vanna AI Service...'' @ colors_reset,
         colors_green @ sym_ok @ '' Vanna AI Service is healthy (200)'' @ colors_reset]"
    using checkService_healthy [OF a]
    by (simp add: zero_rt_def displayed_zero initial_world_def Number_toString_200) (simp add: services_def)
  with a p show ?thesis by simp
qed

text \<open>
  C10. Every verdict of a run, from \<^verbatim>\<open>checkService\<close> or from \<^verbatim>\<open>checkDatabase\<close>, has a status
  that is one of \<^verbatim>\<open>healthy\<close>, \<^verbatim>\<open>warning\<close> and \<^verbatim>\<open>error\<close>, so the three counts of the summary
  add up to the number of verdicts in the Report. A settled request gives a verdict, and
  a run whose requests are all settled gives a Report.
\<close>

theorem statuses_partition:
  "(\<forall>v w'. checkService rt svc w = (Normal v, w')
       \<longrightarrow> verdict.status v \<in> {''healthy'', ''warning'', ''error''})
   \<and> (net rt (length (requests w)) (url svc) \<noteq> Aborted
       \<longrightarrow> (\<exists>v w'. checkService rt svc w = (Normal v, w')))
   \<and> (\<forall>v w'. checkDatabase rt w = (Normal v, w')
       \<longrightarrow> verdict.status v \<in> {''healthy'', ''warning'', ''error''})
   \<and> (net rt (length (requests w)) ''http://localhost:4000/api/stats'' \<noteq> Aborted
       \<longrightarrow> (\<exists>v w'. checkDatabase rt w = (Normal v, w')))
   \<and> (\<forall>rep w'. collect rt svcs w = (Normal rep, w')
       \<longrightarrow> (\<forall>v \<in> set rep. verdict.status v \<in> {''healthy'', ''warning'', ''error''})
         \<and> count_status ''healthy'' rep + count_status ''warning'' rep + count_status ''error'' rep
             = length rep)
   \<and> (all_settle rt (length (requests w)) svcs
       \<longrightarrow> (\<exists>rep w'. collect rt svcs w = (Normal rep, w')))"
proof (intro conjI allI impI)
  fix v w'
  assume "checkService rt svc w = (Normal v, w')"
  then have "awaited (evaluate svc (net rt (length (requests w)) (url svc))) = Normal v"
    using checkService_fst [of rt svc w] by simp
  from evaluate_status [OF awaited_Normal [OF this]]
  show "verdict.status v \<in> {''healthy'', ''warning'', ''error''}" .
next
  assume "net rt (length (requests w)) (url svc) \<noteq> Aborted"
  then obtain v where "evaluate svc (net rt (length (requests w)) (url svc)) = Some v"
    using evaluate_Some_iff [of svc "net rt (length (requests w)) (url svc)"] by auto
  then show "\<exists>v w'. checkService rt svc w = (Normal v, w')"
    using checkService_evaluate [of rt svc w] by auto
next
  fix v w'
  assume "checkDatabase rt w = (Normal v, w')"
  then have "awaited (evaluate_db (net rt (length (requests w)) ''http://localhost:4000/api/stats''))
      = Normal v"
    using checkDatabase_fst [of rt w] by simp
  from evaluate_db_status [OF awaited_Normal [OF this]]
  show "verdict.status v \<in> {''healthy'', ''warning'', ''error''}" .
next
  assume "net rt (length (requests w)) ''http://localhost:4000/api/stats'' \<noteq> Aborted"
  then obtain v where "evaluate_db (net rt (length (requests w)) ''http://localhost:4000/api/stats'') = Some v"
    using evaluate_db_Some_iff [of "net rt (length (requests w)) ''http://localhost:4000/api/stats''"]
    by auto
  then show "\<exists>v w'. checkDatabase rt w = (Normal v, w')"
    using checkDatabase_evaluate [of rt w] by auto
next
  fix rep w'
  assume c: "collect rt svcs w = (Normal rep, w')"
  note r = collect_value [OF c]
  show "\<forall>v \<in> set rep. verdict.status v \<in> {''healthy'', ''warning'', ''error''}"
    using report_status [OF r] by blast
  then show "count_status ''healthy'' rep + count_status ''warning'' rep + count_status ''error'' rep
             = length rep"
    by (intro counts_partition) blast
next
  assume "all_settle rt (length (requests w)) svcs"
  then obtain rep where "report rt (length (requests w)) svcs = Some rep"
    by (auto simp add: all_settle_report)
  from collect_settled [OF this] show "\<exists>rep w'. collect rt svcs w = (Normal rep, w')"
    by blast
qed

theorem statuses_partition_witness:
  "all_settle mixed_rt (length (requests initial_world)) services
   \<and> (\<exists>rep w'. collect mixed_rt services initial_world = (Normal rep, w')
     \<and> map verdict.status rep = [''healthy'', ''warning'', ''error'', ''healthy'']
     \<and> count_status ''healthy'' rep = 2 \<and> count_status ''warning'' rep = 1
     \<and> count_status ''error'' rep = 1 \<and> length rep = 4)"
proof -
  have a: "all_settle mixed_rt (length (requests initial_world)) services"
    using all_settle_mixed by (simp add: initial_world_def)
  note t = statuses_partition [of mixed_rt "services ! 0" initial_world services]
  from t a obtain rep w' where c: "collect mixed_rt services initial_world = (Normal rep, w')"
    by auto
  have r: "rep = [\<lparr>service = ''Vanna AI Service'', status = ''healthy'', code = Some 200, error = None\<rparr>,
      \<lparr>service = ''API Backend'', status = ''warning'', code = Some 503, error = None\<rparr>,
      \<lparr>service = ''Web Frontend'', status = ''error'', code = None,
        error = Some ''connect ECONNREFUSED 127.0.0.1''\<rparr>,
      \<lparr>service = ''Database'', status = ''healthy'', code = None, error = None\<rparr>]"
    using collect_value [OF c] by (simp add: initial_world_def report_mixed)
  have "map verdict.status rep = [''healthy'', ''warning'', ''error'', ''healthy'']"
    "count_status ''healthy'' rep = 2" "count_status ''warning'' rep = 1"
    "count_status ''error'' rep = 1" "length rep = 4"
    by (simp_all add: r count_status_def)
  with a c show ?thesis by simp
qed

end
